theory Spec2Isabelle
  imports Complex_Main "HOL-Library.Word"
begin

section \<open>JSON values and the JSON library\<close>

text \<open>
  The SDK under \<open>mcp_sdk/src\<close> handles documents as \<open>nlohmann::json\<close> values. The
  datatype below has one constructor per kind of value the library distinguishes. An
  object is kept as the list of its members with distinct keys; integers are the
  library's 64-bit integers, read as mathematical integers; a floating-point number is
  read as the real number it denotes.
\<close>

datatype json =
    JNull
  | JBool bool
  | JInt int
  | JFloat real
  | JString string
  | JArray "json list"
  | JObject "(string \<times> json) list"

text \<open>
  The library itself is not part of the repository. What the code needs from it is
  taken as a parameter: \<open>parse\<close> (the text of the exception it throws on the left),
  \<open>dump\<close>, and the text of a type error raised by an accessor (its number and the
  offending value). \<open>dump\<close> is taken to return: the library throws on a string that is
  not valid UTF-8, which no document it has parsed contains.
\<close>

record nlohmann =
  parse :: "string \<Rightarrow> string + json"
  dump :: "json \<Rightarrow> string"
  type_error_what :: "nat \<Rightarrow> json \<Rightarrow> string"

subsection \<open>Errors and exceptions\<close>

text \<open>
  The enumeration \<open>ErrorCode\<close> that \<open>error.cpp\<close> is written against, with the values of
  its enumerators (\<open>error_simple.hpp\<close> declares it).
\<close>

datatype ErrorCode =
    ParseError
  | InvalidRequest
  | MethodNotFound
  | InvalidParams
  | InternalError
  | InvalidMethod
  | ResourceNotFound
  | ResourceNotAvailable
  | ResourceExhausted
  | ContentModified
  | UnknownErrorCode

fun ErrorCode_value :: "ErrorCode \<Rightarrow> int" where
  "ErrorCode_value ParseError = -32700"
| "ErrorCode_value InvalidRequest = -32600"
| "ErrorCode_value MethodNotFound = -32601"
| "ErrorCode_value InvalidParams = -32602"
| "ErrorCode_value InternalError = -32603"
| "ErrorCode_value InvalidMethod = -32604"
| "ErrorCode_value ResourceNotFound = -32606"
| "ErrorCode_value ResourceNotAvailable = -32607"
| "ErrorCode_value ResourceExhausted = -32608"
| "ErrorCode_value ContentModified = -32609"
| "ErrorCode_value UnknownErrorCode = -32000"

definition JSON_RPC_PARSE_ERROR :: int where "JSON_RPC_PARSE_ERROR = -32700"
definition JSON_RPC_INVALID_REQUEST :: int where "JSON_RPC_INVALID_REQUEST = -32600"
definition JSON_RPC_METHOD_NOT_FOUND :: int where "JSON_RPC_METHOD_NOT_FOUND = -32601"
definition JSON_RPC_INVALID_PARAMS :: int where "JSON_RPC_INVALID_PARAMS = -32602"
definition JSON_RPC_INTERNAL_ERROR :: int where "JSON_RPC_INTERNAL_ERROR = -32603"
definition MCP_INVALID_METHOD :: int where "MCP_INVALID_METHOD = -32604"
definition MCP_INVALID_PARAMS :: int where "MCP_INVALID_PARAMS = -32605"
definition MCP_RESOURCE_NOT_FOUND :: int where "MCP_RESOURCE_NOT_FOUND = -32606"
definition MCP_RESOURCE_NOT_AVAILABLE :: int where "MCP_RESOURCE_NOT_AVAILABLE = -32607"
definition MCP_RESOURCE_EXHAUSTED :: int where "MCP_RESOURCE_EXHAUSTED = -32608"
definition MCP_CONTENT_MODIFIED :: int where "MCP_CONTENT_MODIFIED = -32609"

text \<open>
  \<open>errorCodeFromInt\<close> and \<open>errorCodeToInt\<close>: the two \<open>switch\<close> statements of
  \<open>error.cpp\<close>, case by case. The argument is a C++ \<open>int\<close>, a 32-bit word read signed.
\<close>

definition errorCodeFromInt :: "32 word \<Rightarrow> ErrorCode" where
  "errorCodeFromInt code =
     (let c = sint code in
      if c = JSON_RPC_PARSE_ERROR then ParseError
      else if c = JSON_RPC_INVALID_REQUEST then InvalidRequest
      else if c = JSON_RPC_METHOD_NOT_FOUND then MethodNotFound
      else if c = JSON_RPC_INVALID_PARAMS then InvalidParams
      else if c = JSON_RPC_INTERNAL_ERROR then InternalError
      else if c = MCP_INVALID_METHOD then InvalidMethod
      else if c = MCP_RESOURCE_NOT_FOUND then ResourceNotFound
      else if c = MCP_RESOURCE_NOT_AVAILABLE then ResourceNotAvailable
      else if c = MCP_RESOURCE_EXHAUSTED then ResourceExhausted
      else if c = MCP_CONTENT_MODIFIED then ContentModified
      else UnknownErrorCode)"

fun errorCodeToInt :: "ErrorCode \<Rightarrow> int" where
  "errorCodeToInt ParseError = JSON_RPC_PARSE_ERROR"
| "errorCodeToInt InvalidRequest = JSON_RPC_INVALID_REQUEST"
| "errorCodeToInt MethodNotFound = JSON_RPC_METHOD_NOT_FOUND"
| "errorCodeToInt InvalidParams = JSON_RPC_INVALID_PARAMS"
| "errorCodeToInt InternalError = JSON_RPC_INTERNAL_ERROR"
| "errorCodeToInt InvalidMethod = MCP_INVALID_METHOD"
| "errorCodeToInt ResourceNotFound = MCP_RESOURCE_NOT_FOUND"
| "errorCodeToInt ResourceNotAvailable = MCP_RESOURCE_NOT_AVAILABLE"
| "errorCodeToInt ResourceExhausted = MCP_RESOURCE_EXHAUSTED"
| "errorCodeToInt ContentModified = MCP_CONTENT_MODIFIED"
| "errorCodeToInt UnknownErrorCode = -32000"

text \<open>
  \<open>MCPError\<close> is a \<open>std::runtime_error\<close> with a code and a data value; \<open>what\<close> is the
  message given to the constructor; \<open>err_code\<close> and \<open>err_data\<close> are its code and data
  members. The two-argument construction used throughout the
  code leaves the data null (as the two-argument constructor of \<open>error_simple.cpp\<close>
  does), which \<open>toJson\<close> tests for.
\<close>

record MCPError =
  err_code :: ErrorCode
  what :: string
  err_data :: json

definition MCPError_new :: "ErrorCode \<Rightarrow> string \<Rightarrow> MCPError" where
  "MCPError_new code message = \<lparr>err_code = code, what = message, err_data = JNull\<rparr>"

text \<open>
  What a C++ expression of the code can throw: an \<open>MCPError\<close>, an exception of the JSON
  library (\<open>nlohmann::json::exception\<close>, with its text), or another exception derived
  from \<open>std::exception\<close> (with its text). Every \<open>catch\<close> clause of the code is for
  one of these classes; an object thrown that is not derived from \<open>std::exception\<close> is
  outside the model.
\<close>

datatype exn =
    McpExn MCPError
  | JsonExn string
  | StdExn string

fun exn_what :: "exn \<Rightarrow> string" where
  "exn_what (McpExn e) = what e"
| "exn_what (JsonExn w) = w"
| "exn_what (StdExn w) = w"

subsection \<open>The accessors of the JSON library that the code calls\<close>

text \<open>\<open>j.contains(key)\<close>: false on anything that is not an object.\<close>

fun contains :: "json \<Rightarrow> string \<Rightarrow> bool" where
  "contains (JObject kvs) k = (map_of kvs k \<noteq> None)"
| "contains _ k = False"

text \<open>
  \<open>j[key]\<close> where the code has just checked \<open>j.contains(key)\<close>: the member's value.
  The other equations are never reached by those calls.
\<close>

fun at_key :: "json \<Rightarrow> string \<Rightarrow> json" where
  "at_key (JObject kvs) k = (case map_of kvs k of Some v \<Rightarrow> v | None \<Rightarrow> JNull)"
| "at_key _ k = JNull"

text \<open>
  \<open>j[key]\<close> on a non-constant value with no check before it: a missing member reads as
  null (the library inserts it), null behaves as the empty object, and any other kind
  of value raises type error 305.
\<close>

fun subscript :: "nlohmann \<Rightarrow> json \<Rightarrow> string \<Rightarrow> exn + json" where
  "subscript L (JObject kvs) k = Inr (case map_of kvs k of Some v \<Rightarrow> v | None \<Rightarrow> JNull)"
| "subscript L JNull k = Inr JNull"
| "subscript L j k = Inl (JsonExn (type_error_what L 305 j))"

text \<open>
  \<open>j[key] = v\<close> on a local value that starts out null: null becomes an object, an
  existing member is replaced, a new one is added. The code assigns only to such
  locals, so the last equation is never reached.
\<close>

fun assign :: "string \<Rightarrow> json \<Rightarrow> (string \<times> json) list \<Rightarrow> (string \<times> json) list" where
  "assign k v [] = [(k, v)]"
| "assign k v ((k', v') # kvs) = (if k' = k then (k, v) # kvs else (k', v') # assign k v kvs)"

fun set_key :: "string \<Rightarrow> json \<Rightarrow> json \<Rightarrow> json" where
  "set_key k v (JObject kvs) = JObject (assign k v kvs)"
| "set_key k v JNull = JObject [(k, v)]"
| "set_key k v j = j"

text \<open>\<open>is_number_integer\<close>, \<open>is_string\<close>, \<open>is_null\<close>.\<close>

fun is_number_integer :: "json \<Rightarrow> bool" where
  "is_number_integer (JInt n) = True"
| "is_number_integer _ = False"

fun is_string :: "json \<Rightarrow> bool" where
  "is_string (JString s) = True"
| "is_string _ = False"

fun is_null :: "json \<Rightarrow> bool" where
  "is_null JNull = True"
| "is_null _ = False"

text \<open>
  \<open>get<std::string>()\<close> raises type error 302 on anything but a string.
  \<open>get<int>()\<close> converts any number and a boolean with a C++ cast and raises type error
  302 otherwise; the cast of an integer keeps the low 32 bits, that of a floating-point
  number truncates towards zero (the model wraps where C++ leaves the result of an
  out-of-range cast open).
\<close>

fun get_string :: "nlohmann \<Rightarrow> json \<Rightarrow> exn + string" where
  "get_string L (JString s) = Inr s"
| "get_string L j = Inl (JsonExn (type_error_what L 302 j))"

fun get_int :: "nlohmann \<Rightarrow> json \<Rightarrow> exn + 32 word" where
  "get_int L (JInt n) = Inr (word_of_int n)"
| "get_int L (JFloat r) = Inr (word_of_int (if r < 0 then \<lceil>r\<rceil> else \<lfloor>r\<rfloor>))"
| "get_int L (JBool b) = Inr (if b then 1 else 0)"
| "get_int L j = Inl (JsonExn (type_error_what L 302 j))"

section \<open>Messages (\<open>core/message.cpp\<close>)\<close>

text \<open>
  \<open>RequestId\<close> is a variant of null, \<open>int\<close> and string, null by default. Every message
  holds an optional \<open>RequestId\<close>.
\<close>

datatype RequestId = IdNull | IdInt "32 word" | IdString string

record Request =
  req_id :: "RequestId option"
  req_method :: string
  req_params :: json

record Response =
  resp_id :: "RequestId option"
  resp_result :: json
  resp_error :: "MCPError option"

record Notification =
  notif_id :: "RequestId option"
  notif_method :: string
  notif_params :: json

text \<open>The constructors.\<close>

definition Request_new :: "RequestId \<Rightarrow> string \<Rightarrow> json \<Rightarrow> Request" where
  "Request_new i m p = \<lparr>req_id = Some i, req_method = m, req_params = p\<rparr>"

definition Response_result :: "RequestId \<Rightarrow> json \<Rightarrow> Response" where
  "Response_result i r = \<lparr>resp_id = Some i, resp_result = r, resp_error = None\<rparr>"

definition Response_error :: "RequestId \<Rightarrow> MCPError \<Rightarrow> Response" where
  "Response_error i e = \<lparr>resp_id = Some i, resp_result = JObject [], resp_error = Some e\<rparr>"

definition Notification_new :: "string \<Rightarrow> json \<Rightarrow> Notification" where
  "Notification_new m p = \<lparr>notif_id = None, notif_method = m, notif_params = p\<rparr>"

text \<open>\<open>MCPError::toJson\<close>.\<close>

definition toJson :: "MCPError \<Rightarrow> json" where
  "toJson e =
     (let error = JNull;
          error = set_key ''code'' (JInt (ErrorCode_value (err_code e))) error;
          error = set_key ''message'' (JString (what e)) error;
          error = (if \<not> is_null (err_data e) then set_key ''data'' (err_data e) error else error)
      in error)"

text \<open>
  The block that writes the id, shared by \<open>Request::serialize\<close> and
  \<open>Response::serialize\<close>: an \<open>int\<close> or a string is written, a null id and an absent one
  write nothing.
\<close>

fun put_id :: "RequestId option \<Rightarrow> json \<Rightarrow> json" where
  "put_id (Some (IdInt i)) json = set_key ''id'' (JInt (sint i)) json"
| "put_id (Some (IdString s)) json = set_key ''id'' (JString s) json"
| "put_id _ json = json"

text \<open>
  The \<open>serialize\<close> methods build a document and dump it. The document is defined on
  its own (\<open>_json\<close>) so that theorems can speak of its members.
\<close>

definition Request_json :: "Request \<Rightarrow> json" where
  "Request_json r =
     (let json = JNull;
          json = set_key ''jsonrpc'' (JString ''2.0'') json;
          json = set_key ''method'' (JString (req_method r)) json;
          json = put_id (req_id r) json;
          json = (if \<not> is_null (req_params r) then set_key ''params'' (req_params r) json
                  else json)
      in json)"

definition Request_serialize :: "nlohmann \<Rightarrow> Request \<Rightarrow> string" where
  "Request_serialize L r = dump L (Request_json r)"

definition Response_json :: "Response \<Rightarrow> json" where
  "Response_json r =
     (let json = JNull;
          json = set_key ''jsonrpc'' (JString ''2.0'') json;
          json = put_id (resp_id r) json;
          json = (case resp_error r of
                    Some e \<Rightarrow> set_key ''error'' (toJson e) json
                  | None \<Rightarrow> set_key ''result'' (resp_result r) json)
      in json)"

definition Response_serialize :: "nlohmann \<Rightarrow> Response \<Rightarrow> string" where
  "Response_serialize L r = dump L (Response_json r)"

definition Notification_json :: "Notification \<Rightarrow> json" where
  "Notification_json n =
     (let json = JNull;
          json = set_key ''jsonrpc'' (JString ''2.0'') json;
          json = set_key ''method'' (JString (notif_method n)) json;
          json = (if \<not> is_null (notif_params n) then set_key ''params'' (notif_params n) json
                  else json)
      in json)"

definition Notification_serialize :: "nlohmann \<Rightarrow> Notification \<Rightarrow> string" where
  "Notification_serialize L n = dump L (Notification_json n)"

text \<open>
  The \<open>deserialize\<close> functions. Each is a \<open>try\<close> block (\<open>_try\<close>) whose \<open>catch\<close> clause
  turns an exception of the JSON library into an \<open>MCPError\<close> with code \<open>ParseError\<close>
  and lets an \<open>MCPError\<close> pass.
\<close>

definition catch_json :: "exn + 'a \<Rightarrow> exn + 'a" where
  "catch_json r =
     (case r of
        Inl (JsonExn w) \<Rightarrow> Inl (McpExn (MCPError_new ParseError (''Failed to parse JSON: '' @ w)))
      | _ \<Rightarrow> r)"

definition version_ok :: "json \<Rightarrow> bool" where
  "version_ok json = (contains json ''jsonrpc'' \<and> at_key json ''jsonrpc'' = JString ''2.0'')"

definition Request_of_json :: "nlohmann \<Rightarrow> json \<Rightarrow> exn + Request" where
  "Request_of_json L json =
     (if \<not> version_ok json then
        Inl (McpExn (MCPError_new InvalidRequest ''Invalid JSON-RPC version''))
      else if \<not> contains json ''method'' then
        Inl (McpExn (MCPError_new InvalidRequest ''Missing method''))
      else if contains json ''id'' \<and> \<not> is_number_integer (at_key json ''id'')
              \<and> \<not> is_string (at_key json ''id'') then
        Inl (McpExn (MCPError_new InvalidRequest ''Invalid id type''))
      else
        let rid = (if contains json ''id'' then
                    (case at_key json ''id'' of
                       JInt n \<Rightarrow> IdInt (word_of_int n)
                     | JString s \<Rightarrow> IdString s
                     | _ \<Rightarrow> IdNull)
                  else IdNull)
        in (case get_string L (at_key json ''method'') of
              Inl e \<Rightarrow> Inl e
            | Inr method \<Rightarrow>
                let params = (if contains json ''params'' then at_key json ''params''
                              else JObject [])
                in Inr (Request_new rid method params)))"

definition Request_try :: "nlohmann \<Rightarrow> string \<Rightarrow> exn + Request" where
  "Request_try L jsonStr =
     (case parse L jsonStr of
        Inl w \<Rightarrow> Inl (JsonExn w)
      | Inr json \<Rightarrow> Request_of_json L json)"

definition Request_deserialize :: "nlohmann \<Rightarrow> string \<Rightarrow> exn + Request" where
  "Request_deserialize L jsonStr = catch_json (Request_try L jsonStr)"

definition error_of_json :: "nlohmann \<Rightarrow> json \<Rightarrow> exn + MCPError" where
  "error_of_json L errorJson =
     (case subscript L errorJson ''code'' of
        Inl e \<Rightarrow> Inl e
      | Inr c \<Rightarrow>
          (case get_int L c of
             Inl e \<Rightarrow> Inl e
           | Inr n \<Rightarrow>
               let code = errorCodeFromInt n in
               (case (if contains errorJson ''message''
                      then get_string L (at_key errorJson ''message'') else Inr '''') of
                  Inl e \<Rightarrow> Inl e
                | Inr message \<Rightarrow>
                    let data = (if contains errorJson ''data'' then at_key errorJson ''data''
                                else JObject [])
                    in Inr \<lparr>err_code = code, what = message, err_data = data\<rparr>)))"

definition Response_of_json :: "nlohmann \<Rightarrow> json \<Rightarrow> exn + Response" where
  "Response_of_json L json =
     (if \<not> version_ok json then
        Inl (McpExn (MCPError_new InvalidRequest ''Invalid JSON-RPC version''))
      else
        let rid = (if contains json ''id'' then
                    (case at_key json ''id'' of
                       JInt n \<Rightarrow> IdInt (word_of_int n)
                     | JString s \<Rightarrow> IdString s
                     | _ \<Rightarrow> IdNull)
                  else IdNull)
        in if contains json ''error'' then
             (case error_of_json L (at_key json ''error'') of
                Inl e \<Rightarrow> Inl e
              | Inr error \<Rightarrow> Inr (Response_error rid error))
           else if contains json ''result'' then
             Inr (Response_result rid (at_key json ''result''))
           else Inl (McpExn (MCPError_new InvalidRequest ''Missing result or error'')))"

definition Response_try :: "nlohmann \<Rightarrow> string \<Rightarrow> exn + Response" where
  "Response_try L jsonStr =
     (case parse L jsonStr of
        Inl w \<Rightarrow> Inl (JsonExn w)
      | Inr json \<Rightarrow> Response_of_json L json)"

definition Response_deserialize :: "nlohmann \<Rightarrow> string \<Rightarrow> exn + Response" where
  "Response_deserialize L jsonStr = catch_json (Response_try L jsonStr)"

definition Notification_of_json :: "nlohmann \<Rightarrow> json \<Rightarrow> exn + Notification" where
  "Notification_of_json L json =
     (if \<not> version_ok json then
        Inl (McpExn (MCPError_new InvalidRequest ''Invalid JSON-RPC version''))
      else if \<not> contains json ''method'' then
        Inl (McpExn (MCPError_new InvalidRequest ''Missing method''))
      else if contains json ''id'' then
        Inl (McpExn (MCPError_new InvalidRequest ''Notifications cannot have id''))
      else
        (case get_string L (at_key json ''method'') of
           Inl e \<Rightarrow> Inl e
         | Inr method \<Rightarrow>
             let params = (if contains json ''params'' then at_key json ''params''
                           else JObject [])
             in Inr (Notification_new method params)))"

definition Notification_try :: "nlohmann \<Rightarrow> string \<Rightarrow> exn + Notification" where
  "Notification_try L jsonStr =
     (case parse L jsonStr of
        Inl w \<Rightarrow> Inl (JsonExn w)
      | Inr json \<Rightarrow> Notification_of_json L json)"

definition Notification_deserialize :: "nlohmann \<Rightarrow> string \<Rightarrow> exn + Notification" where
  "Notification_deserialize L jsonStr = catch_json (Notification_try L jsonStr)"

section \<open>Standard output and the logger (\<open>utils/logger.cpp\<close>)\<close>

text \<open>
  The logger is one global object. It drops a message below its level and prints the
  others on \<open>std::cout\<close>, one line each: a timestamp in brackets, the level in
  brackets, the message. \<open>std::cout\<close> is the standard output of the process, the
  stream on which the stdio transport writes its frames.

  \<open>Process\<close> is this state outside the server and client objects: what has been
  written on standard output, and the level of the global logger. The timestamp is
  read from the system clock; the texts that \<open>getTimestamp\<close> returns, call after call,
  are taken as given (\<open>timestamps\<close>), with the number of calls made so far.
\<close>

datatype LogLevel = TRACE | DEBUG | INFO | WARN | ERROR | FATAL

fun LogLevel_value :: "LogLevel \<Rightarrow> nat" where
  "LogLevel_value TRACE = 0"
| "LogLevel_value DEBUG = 1"
| "LogLevel_value INFO = 2"
| "LogLevel_value WARN = 3"
| "LogLevel_value ERROR = 4"
| "LogLevel_value FATAL = 5"

fun levelToString :: "LogLevel \<Rightarrow> string" where
  "levelToString TRACE = ''TRACE''"
| "levelToString DEBUG = ''DEBUG''"
| "levelToString INFO = ''INFO''"
| "levelToString WARN = ''WARN''"
| "levelToString ERROR = ''ERROR''"
| "levelToString FATAL = ''FATAL''"

record Process =
  cout :: string
  log_level :: LogLevel
  timestamps :: "nat \<Rightarrow> string"
  timestamp_calls :: nat

definition Logger_log :: "LogLevel \<Rightarrow> string \<Rightarrow> Process \<Rightarrow> Process" where
  "Logger_log lv message p =
     (if LogLevel_value lv < LogLevel_value (log_level p) then p
      else p\<lparr>cout := cout p @ ''['' @ timestamps p (timestamp_calls p) @ ''] ''
                          @ ''['' @ levelToString lv @ ''] '' @ message @ [CHR 0x0A],
             timestamp_calls := timestamp_calls p + 1\<rparr>)"

section \<open>Transports\<close>

text \<open>
  Server and client hold a transport behind an interface. The two operations they call
  are taken as a record of functions on the transport's state: \<open>t_write\<close> (the method
  \<open>write\<close>) also acts on the process, where the stdio transport writes; it returns
  whether it succeeded, and the two states after it.
\<close>

record 'tr ITransport =
  isConnected :: "'tr \<Rightarrow> bool"
  t_write :: "string \<Rightarrow> 'tr \<Rightarrow> Process \<Rightarrow> bool \<times> 'tr \<times> Process"

subsection \<open>The stdio transport (\<open>transport/stdio_transport.cpp\<close>)\<close>

text \<open>
  The state of a \<open>StdioTransport\<close>: its two flags, whether a message callback has been
  set, what is left to read on standard input (which nothing else reads), and the
  lines the message callback has been called with, in order. What it writes goes on
  the standard output of the process.
\<close>

record StdioTransport =
  connected :: bool
  st_running :: bool
  has_onMessage :: bool
  cin :: string
  delivered :: "string list"

definition Stdio_isConnected :: "StdioTransport \<Rightarrow> bool" where
  "Stdio_isConnected t = (connected t \<and> st_running t)"

definition Stdio_write ::
  "string \<Rightarrow> StdioTransport \<Rightarrow> Process \<Rightarrow> bool \<times> StdioTransport \<times> Process" where
  "Stdio_write data t p =
     (if \<not> Stdio_isConnected t then (False, t, p)
      else (True, t, p\<lparr>cout := cout p @ data @ [CHR 0x0A]\<rparr>))"

definition StdioT :: "StdioTransport ITransport" where
  "StdioT = \<lparr>isConnected = Stdio_isConnected, t_write = Stdio_write\<rparr>"

text \<open>
  \<open>std::getline\<close>: at the end of the input with nothing to extract it fails; otherwise
  it extracts up to the next newline, which it consumes and does not store, or up to
  the end of the input.
\<close>

fun getline :: "string \<Rightarrow> (string \<times> string) option" where
  "getline [] = None"
| "getline (c # cs) =
     Some (takeWhile (\<lambda>x. x \<noteq> CHR 0x0A) (c # cs),
           case dropWhile (\<lambda>x. x \<noteq> CHR 0x0A) (c # cs) of [] \<Rightarrow> [] | _ # rest \<Rightarrow> rest)"

text \<open>
  \<open>connect\<close> sets the flags and starts the reading thread; \<open>read_thread\<close> is the loop
  that thread runs.
\<close>

definition connect :: "StdioTransport \<Rightarrow> bool \<times> StdioTransport" where
  "connect t =
     (if connected t then (True, t)
      else (True, t\<lparr>connected := True, st_running := True\<rparr>))"

function read_thread :: "StdioTransport \<Rightarrow> StdioTransport" where
  "read_thread t =
     (if \<not> st_running t then t
      else (case getline (cin t) of
              None \<Rightarrow> t
            | Some (line, rest) \<Rightarrow>
                read_thread
                  (if line \<noteq> [] \<and> has_onMessage t
                   then t\<lparr>cin := rest, delivered := delivered t @ [line]\<rparr>
                   else t\<lparr>cin := rest\<rparr>)))"
  by pat_completeness auto
termination
proof (relation "measure (\<lambda>t. length (cin t))")
  show "wf (measure (\<lambda>t. length (cin t)))" by simp
next
  fix t :: StdioTransport and x2 line rest
  assume "getline (cin t) = Some x2" and "(line, rest) = x2"
  then have g: "getline (cin t) = Some (line, rest)" by simp
  have "length rest < length (cin t)"
  proof (cases "cin t")
    case Nil
    with g show ?thesis by simp
  next
    case (Cons c cs)
    have "length (case dropWhile (\<lambda>x. x \<noteq> CHR 0x0A) (c # cs) of [] \<Rightarrow> [] | _ # r \<Rightarrow> r)
            < length (c # cs)"
      using length_dropWhile_le [of "\<lambda>x. x \<noteq> CHR 0x0A" "c # cs"]
      by (cases "dropWhile (\<lambda>x. x \<noteq> CHR 0x0A) (c # cs)") auto
    with g Cons show ?thesis by auto
  qed
  then show "(if line \<noteq> [] \<and> has_onMessage t
              then t\<lparr>cin := rest, delivered := delivered t @ [line]\<rparr>
              else t\<lparr>cin := rest\<rparr>, t) \<in> measure (\<lambda>t. length (cin t))"
    by simp
qed

declare read_thread.simps [simp del]

section \<open>Registries (\<open>tools.cpp\<close>, \<open>resources.cpp\<close>, \<open>prompts.cpp\<close>)\<close>

text \<open>
  A registry is a \<open>std::map\<close> from a name to the registered information and handler; it
  is kept as the list of its entries in the order the map iterates them. A handler is a
  \<open>std::function\<close>: it returns a value or throws. A resource handler takes no argument
  and is kept as its outcome.
\<close>

record ToolInfo =
  tool_description :: string
  tool_input_schema :: json

record ToolEntry =
  tool_info :: ToolInfo
  tool_handler :: "json \<Rightarrow> exn + json"

record ResourceInfo =
  resource_name :: string
  resource_description :: string
  resource_mime_type :: string

record ResourceEntry =
  resource_info :: ResourceInfo
  resource_handler :: "exn + json"

record PromptInfo =
  prompt_description :: string
  prompt_arguments :: json

record PromptEntry =
  prompt_info :: PromptInfo
  prompt_handler :: "json \<Rightarrow> exn + json"

definition callTool :: "(string \<times> ToolEntry) list \<Rightarrow> string \<Rightarrow> json \<Rightarrow> exn + json" where
  "callTool tools name arguments =
     (case map_of tools name of
        None \<Rightarrow> Inl (McpExn (MCPError_new MethodNotFound (''Tool not found: '' @ name)))
      | Some entry \<Rightarrow>
          (case tool_handler entry arguments of
             Inr v \<Rightarrow> Inr v
           | Inl e \<Rightarrow>
               Inl (McpExn (MCPError_new InternalError
                              (''Tool execution error: '' @ exn_what e)))))"

definition readResource :: "(string \<times> ResourceEntry) list \<Rightarrow> string \<Rightarrow> exn + json" where
  "readResource resources uri =
     (case map_of resources uri of
        None \<Rightarrow> Inl (McpExn (MCPError_new ResourceNotFound (''Resource not found: '' @ uri)))
      | Some entry \<Rightarrow>
          (case resource_handler entry of
             Inr v \<Rightarrow> Inr v
           | Inl e \<Rightarrow>
               Inl (McpExn (MCPError_new InternalError
                              (''Resource read error: '' @ exn_what e)))))"

definition getPrompt :: "(string \<times> PromptEntry) list \<Rightarrow> string \<Rightarrow> json \<Rightarrow> exn + json" where
  "getPrompt prompts name arguments =
     (case map_of prompts name of
        None \<Rightarrow> Inl (McpExn (MCPError_new MethodNotFound (''Prompt not found: '' @ name)))
      | Some entry \<Rightarrow>
          (case prompt_handler entry arguments of
             Inr v \<Rightarrow> Inr v
           | Inl e \<Rightarrow>
               Inl (McpExn (MCPError_new InternalError
                              (''Prompt execution error: '' @ exn_what e)))))"






section \<open>The server (\<open>server/server.cpp\<close>)\<close>

record 'tr MCPServer =
  transport :: 'tr
  srv_running :: bool
  initialized :: bool
  tool_registry :: "(string \<times> ToolEntry) list"
  resource_registry :: "(string \<times> ResourceEntry) list"
  prompt_registry :: "(string \<times> PromptEntry) list"
  server_name :: string
  server_version :: string
  process :: Process

text \<open>\<open>push_back\<close> on a value that the code has just set to an array.\<close>

fun push_back :: "json \<Rightarrow> json \<Rightarrow> json" where
  "push_back v (JArray xs) = JArray (xs @ [v])"
| "push_back v JNull = JArray [v]"
| "push_back v j = j"

definition handleInitialize :: "'tr MCPServer \<Rightarrow> json \<Rightarrow> exn + json" where
  "handleInitialize srv params =
     (if \<not> contains params ''clientInfo'' then
        Inl (McpExn (MCPError_new InvalidParams ''Missing clientInfo''))
      else
        let clientInfo = at_key params ''clientInfo'' in
        if \<not> contains clientInfo ''name'' \<or> \<not> contains clientInfo ''version'' then
          Inl (McpExn (MCPError_new InvalidParams ''Invalid clientInfo''))
        else
          let capabilities = JNull;
              capabilities = (if tool_registry srv \<noteq> []
                              then set_key ''tools'' (JObject []) capabilities
                              else capabilities);
              capabilities = (if resource_registry srv \<noteq> []
                              then set_key ''resources'' (JObject []) capabilities
                              else capabilities);
              capabilities = (if prompt_registry srv \<noteq> []
                              then set_key ''prompts'' (JObject []) capabilities
                              else capabilities);
              serverInfo = JNull;
              serverInfo = set_key ''name'' (JString (server_name srv)) serverInfo;
              serverInfo = set_key ''version'' (JString (server_version srv)) serverInfo;
              result = JNull;
              result = set_key ''protocolVersion'' (JString ''2024-11-05'') result;
              result = set_key ''capabilities'' capabilities result;
              result = set_key ''serverInfo'' serverInfo result
          in Inr result)"

definition handleToolCall :: "nlohmann \<Rightarrow> 'tr MCPServer \<Rightarrow> json \<Rightarrow> exn + json" where
  "handleToolCall L srv params =
     (if \<not> contains params ''name'' then
        Inl (McpExn (MCPError_new InvalidParams ''Missing tool name''))
      else
        (case get_string L (at_key params ''name'') of
           Inl e \<Rightarrow> Inl e
         | Inr name \<Rightarrow>
             let arguments = (if contains params ''arguments'' then at_key params ''arguments''
                              else JObject [])
             in callTool (tool_registry srv) name arguments))"

definition handleToolsList :: "'tr MCPServer \<Rightarrow> json \<Rightarrow> exn + json" where
  "handleToolsList srv params =
     (let result = set_key ''tools'' (JArray []) JNull
      in Inr (foldl (\<lambda>result (name, entry).
                       let tool = JNull;
                           tool = set_key ''name'' (JString name) tool;
                           tool = set_key ''description''
                                    (JString (tool_description (tool_info entry))) tool;
                           tool = set_key ''inputSchema''
                                    (tool_input_schema (tool_info entry)) tool
                       in set_key ''tools'' (push_back tool (at_key result ''tools'')) result)
                    result (tool_registry srv)))"

definition handleResourceRead :: "nlohmann \<Rightarrow> 'tr MCPServer \<Rightarrow> json \<Rightarrow> exn + json" where
  "handleResourceRead L srv params =
     (if \<not> contains params ''uri'' then
        Inl (McpExn (MCPError_new InvalidParams ''Missing resource URI''))
      else
        (case get_string L (at_key params ''uri'') of
           Inl e \<Rightarrow> Inl e
         | Inr uri \<Rightarrow> readResource (resource_registry srv) uri))"

definition handleResourcesList :: "'tr MCPServer \<Rightarrow> json \<Rightarrow> exn + json" where
  "handleResourcesList srv params =
     (let result = set_key ''resources'' (JArray []) JNull
      in Inr (foldl (\<lambda>result (uri, entry).
                       let resource = JNull;
                           resource = set_key ''uri'' (JString uri) resource;
                           resource = set_key ''name''
                                        (JString (resource_name (resource_info entry))) resource;
                           resource = set_key ''description''
                                        (JString (resource_description (resource_info entry)))
                                        resource;
                           resource = set_key ''mimeType''
                                        (JString (resource_mime_type (resource_info entry)))
                                        resource
                       in set_key ''resources''
                            (push_back resource (at_key result ''resources'')) result)
                    result (resource_registry srv)))"

definition handlePromptGet :: "nlohmann \<Rightarrow> 'tr MCPServer \<Rightarrow> json \<Rightarrow> exn + json" where
  "handlePromptGet L srv params =
     (if \<not> contains params ''name'' then
        Inl (McpExn (MCPError_new InvalidParams ''Missing prompt name''))
      else
        (case get_string L (at_key params ''name'') of
           Inl e \<Rightarrow> Inl e
         | Inr name \<Rightarrow>
             let arguments = (if contains params ''arguments'' then at_key params ''arguments''
                              else JObject [])
             in getPrompt (prompt_registry srv) name arguments))"

definition handlePromptsList :: "'tr MCPServer \<Rightarrow> json \<Rightarrow> exn + json" where
  "handlePromptsList srv params =
     (let result = set_key ''prompts'' (JArray []) JNull
      in Inr (foldl (\<lambda>result (name, entry).
                       let prompt = JNull;
                           prompt = set_key ''name'' (JString name) prompt;
                           prompt = set_key ''description''
                                      (JString (prompt_description (prompt_info entry))) prompt;
                           prompt = set_key ''arguments''
                                      (prompt_arguments (prompt_info entry)) prompt
                       in set_key ''prompts'' (push_back prompt (at_key result ''prompts'')) result)
                    result (prompt_registry srv)))"

text \<open>
  \<open>handleRequest\<close>. \<open>dispatch\<close> is the chain of comparisons on the method;
  \<open>handleRequest_try\<close> is the \<open>try\<close> block, which returns the exception that leaves it,
  if any, and the state at that point; \<open>handleRequest\<close> adds the two \<open>catch\<close> clauses.
  Reading the id of a request that has none throws before the \<open>try\<close> block.
\<close>

definition dispatch :: "nlohmann \<Rightarrow> 'tr MCPServer \<Rightarrow> string \<Rightarrow> json \<Rightarrow> exn + json" where
  "dispatch L srv method params =
     (if method = ''initialize'' then handleInitialize srv params
      else if method = ''tools/call'' then handleToolCall L srv params
      else if method = ''tools/list'' then handleToolsList srv params
      else if method = ''resources/read'' then handleResourceRead L srv params
      else if method = ''resources/list'' then handleResourcesList srv params
      else if method = ''prompts/get'' then handlePromptGet L srv params
      else if method = ''prompts/list'' then handlePromptsList srv params
      else Inl (McpExn (MCPError_new MethodNotFound (''Method not found: '' @ method))))"

definition write_response ::
  "'tr ITransport \<Rightarrow> nlohmann \<Rightarrow> Response \<Rightarrow> 'tr MCPServer \<Rightarrow> bool \<times> 'tr MCPServer" where
  "write_response T L response srv =
     (let responseMessage = Response_serialize L response;
          (ok, tr, p) = t_write T responseMessage (transport srv) (process srv)
      in (ok, srv\<lparr>transport := tr, process := p\<rparr>))"

definition handleRequest_try ::
  "'tr ITransport \<Rightarrow> nlohmann \<Rightarrow> RequestId \<Rightarrow> string \<Rightarrow> json \<Rightarrow> 'tr MCPServer
     \<Rightarrow> exn option \<times> 'tr MCPServer" where
  "handleRequest_try T L rid method params srv =
     (case dispatch L srv method params of
        Inl e \<Rightarrow> (Some e, srv)
      | Inr result \<Rightarrow>
          (case write_response T L (Response_result rid result) srv of
             (False, srv') \<Rightarrow> (Some (StdExn ''Failed to send response''), srv')
           | (True, srv') \<Rightarrow>
               (None, srv'\<lparr>process := Logger_log DEBUG (''Handled request: '' @ method)
                                         (process srv')\<rparr>)))"

definition handleRequest ::
  "'tr ITransport \<Rightarrow> nlohmann \<Rightarrow> Request \<Rightarrow> 'tr MCPServer \<Rightarrow> exn + 'tr MCPServer" where
  "handleRequest T L request srv =
     (let method = req_method request;
          params = req_params request
      in case req_id request of
           None \<Rightarrow> Inl (StdExn ''bad optional access'')
         | Some rid \<Rightarrow>
             (case handleRequest_try T L rid method params srv of
                (None, srv') \<Rightarrow> Inr srv'
              | (Some (McpExn e), srv') \<Rightarrow>
                  Inr (snd (write_response T L (Response_error rid e) srv'))
              | (Some e, srv') \<Rightarrow>
                  let error = MCPError_new InternalError (''Internal error: '' @ exn_what e)
                  in Inr (snd (write_response T L (Response_error rid error) srv'))))"

definition handleNotification :: "Notification \<Rightarrow> 'tr MCPServer \<Rightarrow> 'tr MCPServer" where
  "handleNotification notification srv =
     (let method = notif_method notification;
          srv = (if method = ''notifications/initialized''
                 then srv\<lparr>initialized := True,
                          process := Logger_log INFO ''Client initialized'' (process srv)\<rparr>
                 else srv)
      in srv\<lparr>process := Logger_log DEBUG (''Received notification: '' @ method)
                          (process srv)\<rparr>)"

text \<open>
  \<open>handleMessage\<close>: the \<open>try\<close> block, then the \<open>catch\<close> clause. Nothing in the block
  changes the state before an exception can leave it, so the clause logs on the state
  the call started with.
\<close>

definition handleMessage_try ::
  "'tr ITransport \<Rightarrow> nlohmann \<Rightarrow> string \<Rightarrow> 'tr MCPServer \<Rightarrow> exn + 'tr MCPServer" where
  "handleMessage_try T L message srv =
     (case Request_deserialize L message of
        Inl e \<Rightarrow> Inl e
      | Inr request \<Rightarrow>
          if req_id request \<noteq> None then handleRequest T L request srv
          else
            (case Notification_deserialize L message of
               Inl e \<Rightarrow> Inl e
             | Inr notification \<Rightarrow> Inr (handleNotification notification srv)))"

definition handleMessage ::
  "'tr ITransport \<Rightarrow> nlohmann \<Rightarrow> string \<Rightarrow> 'tr MCPServer \<Rightarrow> 'tr MCPServer" where
  "handleMessage T L message srv =
     (case handleMessage_try T L message srv of
        Inr srv' \<Rightarrow> srv'
      | Inl e \<Rightarrow>
          srv\<lparr>process := Logger_log ERROR (''Failed to handle message: '' @ exn_what e)
                            (process srv)\<rparr>)"

section \<open>The client (\<open>client/client.cpp\<close>)\<close>

text \<open>
  The shared state of a \<open>std::promise\<close>. \<open>sendRequest\<close> creates a promise
  with \<open>make_shared\<close>, keeps one pointer to it in \<open>pending_requests_\<close> and hands its
  future to the caller. The promises are kept in a list, a pointer is a position in
  it, and the future returned is that position.
\<close>

datatype promise_state = Unset | Value Response | Exception string

text \<open>
  \<open>set_value\<close> and \<open>set_exception\<close> throw \<open>std::future_error\<close> when the promise is
  already satisfied.
\<close>

definition set_value :: "nat \<Rightarrow> Response \<Rightarrow> promise_state list \<Rightarrow> exn + promise_state list" where
  "set_value p v ps =
     (if p < length ps \<and> ps ! p = Unset then Inr (ps[p := Value v])
      else Inl (StdExn ''Promise already satisfied''))"

definition set_exception :: "nat \<Rightarrow> string \<Rightarrow> promise_state list \<Rightarrow> exn + promise_state list" where
  "set_exception p w ps =
     (if p < length ps \<and> ps ! p = Unset then Inr (ps[p := Exception w])
      else Inl (StdExn ''Promise already satisfied''))"

text \<open>
  The client: the transport, the flag, the counter of request ids (an \<open>int\<close>), the map
  of pending requests, the promises, and the process it runs in. The callbacks are
  functions of the caller: the model keeps which of them are set (for subscriptions,
  the methods subscribed to) and the calls made to each, in order.
\<close>

record 'tr MCPClient =
  c_transport :: 'tr
  c_initialized :: bool
  request_id_counter :: "32 word"
  pending_requests :: "RequestId \<rightharpoonup> nat"
  promises :: "promise_state list"
  has_responseCallback :: bool
  responseCallback_calls :: "(RequestId \<times> Response) list"
  subscriptions :: "string list"
  subscription_calls :: "(string \<times> json) list"
  has_notificationCallback :: bool
  notificationCallback_calls :: "(string \<times> json) list"
  c_process :: Process

text \<open>
  \<open>sendRequest\<close> throws when the client is not connected; otherwise it returns the
  future. A failed write erases the entry and stores the exception in the promise.
\<close>

definition sendRequest ::
  "'tr ITransport \<Rightarrow> nlohmann \<Rightarrow> string \<Rightarrow> json \<Rightarrow> 'tr MCPClient
     \<Rightarrow> exn + nat \<times> 'tr MCPClient" where
  "sendRequest T L method params cl =
     (if \<not> isConnected T (c_transport cl) then Inl (StdExn ''Client not connected'')
      else
        let counter = request_id_counter cl + 1;
            rid = IdInt counter;
            request = Request_new rid method params;
            message = Request_serialize L request;
            promise = length (promises cl);
            future = promise;
            cl = cl\<lparr>request_id_counter := counter, promises := promises cl @ [Unset]\<rparr>;
            cl = cl\<lparr>pending_requests := (pending_requests cl)(rid \<mapsto> promise)\<rparr>;
            (ok, tr, p) = t_write T message (c_transport cl) (c_process cl);
            cl = cl\<lparr>c_transport := tr, c_process := p\<rparr>
        in if \<not> ok then
             let cl = cl\<lparr>pending_requests := (pending_requests cl)(rid := None)\<rparr>
             in (case set_exception promise ''Failed to send request'' (promises cl) of
                   Inl e \<Rightarrow> Inl e
                 | Inr ps \<Rightarrow> Inr (future, cl\<lparr>promises := ps\<rparr>))
           else
             Inr (future,
                  cl\<lparr>c_process := Logger_log DEBUG (''Sent request: '' @ method)
                                     (c_process cl)\<rparr>))"

text \<open>
  \<open>handleResponse\<close> returns the exception that leaves it, if any (\<open>set_value\<close> on a
  satisfied promise), and the state at that point.
\<close>

definition handleResponse :: "Response \<Rightarrow> 'tr MCPClient \<Rightarrow> exn option \<times> 'tr MCPClient" where
  "handleResponse response cl =
     (case resp_id response of
        None \<Rightarrow>
          (None, cl\<lparr>c_process := Logger_log WARN ''Received response without ID''
                                    (c_process cl)\<rparr>)
      | Some rid \<Rightarrow>
          (case pending_requests cl rid of
             Some promise \<Rightarrow>
               let cl = cl\<lparr>pending_requests := (pending_requests cl)(rid := None)\<rparr>
               in (case set_value promise response (promises cl) of
                     Inl e \<Rightarrow> (Some e, cl)
                   | Inr ps \<Rightarrow>
                       let cl = cl\<lparr>promises := ps\<rparr>
                       in (None,
                           if has_responseCallback cl
                           then cl\<lparr>responseCallback_calls :=
                                      responseCallback_calls cl @ [(rid, response)]\<rparr>
                           else cl))
           | None \<Rightarrow>
               (None, cl\<lparr>c_process := Logger_log WARN ''Received response for unknown request ID''
                                           (c_process cl)\<rparr>)))"

text \<open>
  \<open>MCPClient::handleNotification\<close> and \<open>MCPClient::handleMessage\<close> (the names of the
  server's methods being taken). \<open>client_handleMessage_try\<close> is the \<open>try\<close> block, with
  the exception that leaves it, if any, and the state at that point;
  \<open>client_handleMessage\<close> adds the \<open>catch\<close> clause.
\<close>

definition client_handleNotification :: "Notification \<Rightarrow> 'tr MCPClient \<Rightarrow> 'tr MCPClient" where
  "client_handleNotification notification cl =
     (let method = notif_method notification;
          cl = (if method \<in> set (subscriptions cl)
                then cl\<lparr>subscription_calls :=
                           subscription_calls cl @ [(method, notif_params notification)]\<rparr>
                else cl);
          cl = (if has_notificationCallback cl
                then cl\<lparr>notificationCallback_calls :=
                           notificationCallback_calls cl @ [(method, notif_params notification)]\<rparr>
                else cl)
      in cl\<lparr>c_process := Logger_log DEBUG (''Received notification: '' @ method)
                            (c_process cl)\<rparr>)"

definition client_handleMessage_try ::
  "nlohmann \<Rightarrow> string \<Rightarrow> 'tr MCPClient \<Rightarrow> exn option \<times> 'tr MCPClient" where
  "client_handleMessage_try L message cl =
     (case Response_deserialize L message of
        Inl e \<Rightarrow> (Some e, cl)
      | Inr response \<Rightarrow>
          if resp_id response \<noteq> None then handleResponse response cl
          else
            (case Notification_deserialize L message of
               Inl e \<Rightarrow> (Some e, cl)
             | Inr notification \<Rightarrow> (None, client_handleNotification notification cl)))"

definition client_handleMessage :: "nlohmann \<Rightarrow> string \<Rightarrow> 'tr MCPClient \<Rightarrow> 'tr MCPClient" where
  "client_handleMessage L message cl =
     (case client_handleMessage_try L message cl of
        (None, cl') \<Rightarrow> cl'
      | (Some e, cl') \<Rightarrow>
          cl'\<lparr>c_process := Logger_log ERROR (''Failed to handle message: '' @ exn_what e)
                              (c_process cl')\<rparr>)"

section \<open>Examples\<close>

text \<open>
  A stand-in for the JSON library on the documents of the examples below. The first
  table has messages that the SDK writes, each with the text the library dumps for it
  (members in the order of their keys, no white space); the second has texts that arrive
  from a peer, each with the value the library parses it to. The stand-in dumps a value
  of the first table as its text, parses a text of either table as its value, and
  rejects every other text.
\<close>

definition example_documents :: "(string \<times> json) list" where
  \<open>example_documents =
     [(''{"id":1,"jsonrpc":"2.0","method":"ping"}'',
       JObject [(''jsonrpc'', JString ''2.0''), (''method'', JString ''ping''), (''id'', JInt 1)]),
      (''{"id":7,"jsonrpc":"2.0","method":"tools/call","params":{"name":"echo"}}'',
       JObject [(''jsonrpc'', JString ''2.0''), (''method'', JString ''tools/call''),
                (''id'', JInt 7), (''params'', JObject [(''name'', JString ''echo'')])]),
      (''{"id":7,"jsonrpc":"2.0","result":{"echo":"No message provided"}}'',
       JObject [(''jsonrpc'', JString ''2.0''), (''id'', JInt 7),
                (''result'', JObject [(''echo'', JString ''No message provided'')])]),
      (''{"error":{"code":-32601,"data":{},"message":"Tool not found: nope"},"id":"a","jsonrpc":"2.0"}'',
       JObject [(''jsonrpc'', JString ''2.0''), (''id'', JString ''a''),
                (''error'', JObject [(''code'', JInt (-32601)),
                                     (''message'', JString ''Tool not found: nope''),
                                     (''data'', JObject [])])]),
      (''{"jsonrpc":"2.0","method":"notifications/initialized","params":{}}'',
       JObject [(''jsonrpc'', JString ''2.0''),
                (''method'', JString ''notifications/initialized''),
                (''params'', JObject [])]),
      (''{"id":2,"jsonrpc":"2.0","result":{"tools":[]}}'',
       JObject [(''jsonrpc'', JString ''2.0''), (''id'', JInt 2),
                (''result'', JObject [(''tools'', JArray [])])]),
      (''{"error":{"code":-32601,"message":"Method not found: nope"},"id":4,"jsonrpc":"2.0"}'',
       JObject [(''jsonrpc'', JString ''2.0''), (''id'', JInt 4),
                (''error'', JObject [(''code'', JInt (-32601)),
                                     (''message'', JString ''Method not found: nope'')])]),
      (''{"error":{"code":-32601,"message":"Method not found: nope"},"id":1,"jsonrpc":"2.0"}'',
       JObject [(''jsonrpc'', JString ''2.0''), (''id'', JInt 1),
                (''error'', JObject [(''code'', JInt (-32601)),
                                     (''message'', JString ''Method not found: nope'')])]),
      (''{"error":{"code":-32601,"message":"Tool not found: nope"},"id":8,"jsonrpc":"2.0"}'',
       JObject [(''jsonrpc'', JString ''2.0''), (''id'', JInt 8),
                (''error'', JObject [(''code'', JInt (-32601)),
                                     (''message'', JString ''Tool not found: nope'')])]),
      (''{"error":{"code":-32603,"message":"Tool execution error: Division by zero"},"id":3,"jsonrpc":"2.0"}'',
       JObject [(''jsonrpc'', JString ''2.0''), (''id'', JInt 3),
                (''error'', JObject [(''code'', JInt (-32603)),
                                     (''message'',
                                      JString ''Tool execution error: Division by zero'')])])]\<close>

definition example_inbound :: "(string \<times> json) list" where
  \<open>example_inbound =
     [(''{"jsonrpc":"2.0","id":1,"result":{},"error":{"code":-32601,"message":"x"}}'',
       JObject [(''jsonrpc'', JString ''2.0''), (''id'', JInt 1), (''result'', JObject []),
                (''error'', JObject [(''code'', JInt (-32601)), (''message'', JString ''x'')])]),
      (''{"jsonrpc":"2.0","id":1,"error":{"code":-32601,"message":"x"}}'',
       JObject [(''jsonrpc'', JString ''2.0''), (''id'', JInt 1),
                (''error'', JObject [(''code'', JInt (-32601)), (''message'', JString ''x'')])]),
      (''{"jsonrpc":"2.0","id":1,"result":{},"error":null}'',
       JObject [(''jsonrpc'', JString ''2.0''), (''id'', JInt 1), (''result'', JObject []),
                (''error'', JNull)]),
      (''{"jsonrpc":"2.0","id":1}'',
       JObject [(''jsonrpc'', JString ''2.0''), (''id'', JInt 1)]),
      (''{"jsonrpc":"2.0","id":1,"result":{}}'',
       JObject [(''jsonrpc'', JString ''2.0''), (''id'', JInt 1), (''result'', JObject [])]),
      (''{"jsonrpc":"2.0","id":9,"result":{}}'',
       JObject [(''jsonrpc'', JString ''2.0''), (''id'', JInt 9), (''result'', JObject [])]),
      (''{"jsonrpc":"2.0","id":4294967297,"result":{}}'',
       JObject [(''jsonrpc'', JString ''2.0''), (''id'', JInt 4294967297),
                (''result'', JObject [])]),
      (''{"jsonrpc":"2.0","id":2,"method":"tools/list"}'',
       JObject [(''jsonrpc'', JString ''2.0''), (''id'', JInt 2),
                (''method'', JString ''tools/list'')]),
      (''{"jsonrpc":"2.0","id":4,"method":"nope"}'',
       JObject [(''jsonrpc'', JString ''2.0''), (''id'', JInt 4), (''method'', JString ''nope'')]),
      (''{"jsonrpc":"2.0","id":4294967297,"method":"nope"}'',
       JObject [(''jsonrpc'', JString ''2.0''), (''id'', JInt 4294967297),
                (''method'', JString ''nope'')]),
      (''{"jsonrpc":"2.0","id":7,"method":"tools/call","params":{"name":"echo"}}'',
       JObject [(''jsonrpc'', JString ''2.0''), (''id'', JInt 7),
                (''method'', JString ''tools/call''),
                (''params'', JObject [(''name'', JString ''echo'')])]),
      (''{"jsonrpc":"2.0","id":8,"method":"tools/call","params":{"name":"nope"}}'',
       JObject [(''jsonrpc'', JString ''2.0''), (''id'', JInt 8),
                (''method'', JString ''tools/call''),
                (''params'', JObject [(''name'', JString ''nope'')])]),
      (''{"jsonrpc":"2.0","id":3,"method":"tools/call","params":{"name":"calculator","arguments":{"operation":"divide","a":1,"b":0}}}'',
       JObject [(''jsonrpc'', JString ''2.0''), (''id'', JInt 3),
                (''method'', JString ''tools/call''),
                (''params'',
                 JObject [(''name'', JString ''calculator''),
                          (''arguments'',
                           JObject [(''operation'', JString ''divide''),
                                    (''a'', JInt 1), (''b'', JInt 0)])])])]\<close>

definition example_lib :: nlohmann where
  "example_lib =
     \<lparr>parse = (\<lambda>s. case map_of (example_documents @ example_inbound) s of
                      Some j \<Rightarrow> Inr j
                    | None \<Rightarrow> Inl ''syntax error''),
      dump = (\<lambda>j. case find (\<lambda>d. snd d = j) example_documents of
                     Some d \<Rightarrow> fst d
                   | None \<Rightarrow> []),
      type_error_what = (\<lambda>n j. ''type error'')\<rparr>"


definition example_process :: Process where
  "example_process =
     \<lparr>cout = [], log_level = INFO,
      timestamps = (\<lambda>n. ''2025-01-01 00:00:00.000''), timestamp_calls = 0\<rparr>"

text \<open>
  A server on a connected stdio transport with nothing registered, one with the echo
  tool and the calculator, and a client with one request pending.
\<close>

definition example_stdio :: StdioTransport where
  "example_stdio =
     \<lparr>connected = True, st_running = True, has_onMessage = True,
      cin = [], delivered = []\<rparr>"

definition example_server :: "StdioTransport MCPServer" where
  "example_server =
     \<lparr>transport = example_stdio, srv_running = True, initialized = False,
      tool_registry = [], resource_registry = [], prompt_registry = [],
      server_name = ''s'', server_version = ''1'',
      process = example_process\<rparr>"


definition example_client :: "StdioTransport MCPClient" where
  "example_client =
     \<lparr>c_transport = example_stdio, c_initialized = True, request_id_counter = 1,
      pending_requests = [IdInt 1 \<mapsto> 0], promises = [Unset],
      has_responseCallback = False, responseCallback_calls = [],
      subscriptions = [], subscription_calls = [],
      has_notificationCallback = False, notificationCallback_calls = [],
      c_process = example_process\<rparr>"

text \<open>A transport that reports itself connected and whose every write fails.\<close>

definition failing_transport :: "unit ITransport" where
  "failing_transport = \<lparr>isConnected = (\<lambda>_. True), t_write = (\<lambda>data t p. (False, t, p))\<rparr>"

definition failing_client :: "unit MCPClient" where
  "failing_client =
     \<lparr>c_transport = (), c_initialized = True, request_id_counter = 1,
      pending_requests = [IdInt 1 \<mapsto> 0], promises = [Unset],
      has_responseCallback = False, responseCallback_calls = [],
      subscriptions = [], subscription_calls = [],
      has_notificationCallback = False, notificationCallback_calls = [],
      c_process = example_process\<rparr>"

section \<open>Notions used in the statements\<close>

text \<open>How a null (absent) \<open>params\<close> or error \<open>data\<close> reads back: as the empty object.\<close>

definition absent_as_object :: "json \<Rightarrow> json" where
  "absent_as_object p = (if is_null p then JObject [] else p)"

text \<open>A document without one of its members.\<close>

fun remove_key :: "string \<Rightarrow> json \<Rightarrow> json" where
  "remove_key k (JObject kvs) = JObject (filter (\<lambda>kv. fst kv \<noteq> k) kvs)"
| "remove_key k j = j"

text \<open>The methods that \<open>handleRequest\<close> compares the request's method with.\<close>

definition request_methods :: "string list" where
  "request_methods =
     [''initialize'', ''tools/call'', ''tools/list'', ''resources/read'', ''resources/list'',
      ''prompts/get'', ''prompts/list'']"

text \<open>
  The request id that an \<open>id\<close> member of a document stands for, when a \<open>RequestId\<close> can
  hold it: a string, or an integer in the range of \<open>int\<close>.
\<close>

fun wire_id :: "json \<Rightarrow> RequestId option" where
  "wire_id (JInt n) =
     (if - (2 ^ 31) \<le> n \<and> n < 2 ^ 31 then Some (IdInt (word_of_int n)) else None)"
| "wire_id (JString s) = Some (IdString s)"
| "wire_id _ = None"


text \<open>The line that the logger prints for a message.\<close>

definition log_line :: "Process \<Rightarrow> LogLevel \<Rightarrow> string \<Rightarrow> string" where
  "log_line p lv message =
     ''['' @ timestamps p (timestamp_calls p) @ ''] [''
       @ levelToString lv @ ''] '' @ message @ [CHR 0x0A]"

text \<open>
  The segments of a text between its newlines: every stretch that a newline ends, and
  the stretch after the last newline when it is not empty.
\<close>

fun segments :: "string \<Rightarrow> string list" where
  "segments [] = []"
| "segments (c # cs) =
     (if c = CHR 0x0A then [] # segments cs
      else (case segments cs of [] \<Rightarrow> [[c]] | l # ls \<Rightarrow> (c # l) # ls))"

section \<open>Properties of the codec\<close>

lemmas error_constants =
  JSON_RPC_PARSE_ERROR_def JSON_RPC_INVALID_REQUEST_def JSON_RPC_METHOD_NOT_FOUND_def
  JSON_RPC_INVALID_PARAMS_def JSON_RPC_INTERNAL_ERROR_def MCP_INVALID_METHOD_def
  MCP_INVALID_PARAMS_def MCP_RESOURCE_NOT_FOUND_def MCP_RESOURCE_NOT_AVAILABLE_def
  MCP_RESOURCE_EXHAUSTED_def MCP_CONTENT_MODIFIED_def

lemma is_null_iff: "is_null j \<longleftrightarrow> j = JNull"
  by (cases j) simp_all

lemma errorCodeFromInt_value: "errorCodeFromInt (word_of_int (ErrorCode_value c)) = c"
  by (cases c) (simp_all add: errorCodeFromInt_def error_constants)

lemma errorCodeToInt_value: "errorCodeToInt c = ErrorCode_value c"
  by (cases c) (simp_all add: error_constants)

lemma map_of_assign: "map_of (assign k v kvs) = (map_of kvs)(k \<mapsto> v)"
  by (induction kvs) auto

lemma contains_set_key_other:
  "k' \<noteq> k \<Longrightarrow> contains (set_key k v j) k' = contains j k'"
  by (cases j) (simp_all add: map_of_assign)

lemma at_key_set_key_other:
  "k' \<noteq> k \<Longrightarrow> at_key (set_key k v j) k' = at_key j k'"
  by (cases j) (simp_all add: map_of_assign)

lemma Request_of_json_Request_json:
  assumes "req_id r \<noteq> None"
  shows "Request_of_json L (Request_json r)
           = Inr (r\<lparr>req_params := absent_as_object (req_params r)\<rparr>)"
proof -
  obtain i where i: "req_id r = Some i" using assms by auto
  show ?thesis using i
    by (cases i; cases r)
       (simp_all add: Request_of_json_def Request_json_def version_ok_def
          Request_new_def absent_as_object_def is_null_iff)
qed

lemma Notification_of_json_Notification_json:
  assumes "notif_id n = None"
  shows "Notification_of_json L (Notification_json n)
           = Inr (n\<lparr>notif_params := absent_as_object (notif_params n)\<rparr>)"
  using assms
  by (cases n) (simp add: Notification_of_json_def Notification_json_def version_ok_def
          Notification_new_def absent_as_object_def is_null_iff)

lemma error_of_json_toJson:
  "error_of_json L (toJson e) = Inr (e\<lparr>err_data := absent_as_object (err_data e)\<rparr>)"
  by (cases e) (simp add: error_of_json_def toJson_def absent_as_object_def is_null_iff
      errorCodeFromInt_value)

lemma Response_of_json_Response_json_result:
  assumes "resp_id r \<noteq> None" "resp_error r = None"
  shows "Response_of_json L (Response_json r) = Inr r"
proof -
  obtain i where i: "resp_id r = Some i" using assms by auto
  show ?thesis using i assms(2)
    by (cases i; cases r) (simp_all add: Response_of_json_def Response_json_def version_ok_def
          Response_result_def)
qed

lemma Response_of_json_Response_json_error:
  assumes "resp_id r \<noteq> None" "resp_error r = Some e" "resp_result r = JObject []"
  shows "Response_of_json L (Response_json r)
           = Inr (r\<lparr>resp_error := Some (e\<lparr>err_data := absent_as_object (err_data e)\<rparr>)\<rparr>)"
proof -
  obtain i where i: "resp_id r = Some i" using assms by auto
  show ?thesis using i assms(2,3)
    by (cases i; cases r) (simp_all add: Response_of_json_def Response_json_def version_ok_def
          Response_error_def error_of_json_toJson)
qed

lemma catch_json_Inr: "catch_json (Inr x) = Inr x"
  by (simp add: catch_json_def)

lemma catch_json_McpExn: "catch_json (Inl (McpExn e)) = Inl (McpExn e)"
  by (simp add: catch_json_def)

lemma catch_json_JsonExn:
  "catch_json (Inl (JsonExn w)) = Inl (McpExn (MCPError_new ParseError (''Failed to parse JSON: '' @ w)))"
  by (simp add: catch_json_def)

text \<open>
  Claim C3, as the code has it. Deserializing the serialization of a message gives the
  message back, with one change: a null \<open>params\<close> (of a request or a notification) and a
  null \<open>data\<close> (of the error of a response) are not written, and are read back as the
  empty object. So a request or a notification whose \<open>params\<close> is not null, a response
  with a result, and a response with an error whose \<open>data\<close> is not null, are read back
  unchanged. The id of a request read back is the id written; an integer id is written
  as a JSON integer. The message has an id (null or not) if it is a request or a
  response and none if it is a notification, as the constructors make it; a response
  with an error has the empty object as its result, as its constructor makes it; and
  the library reads back the document it has dumped.
\<close>

theorem message_round_trip:
  "(req_id r \<noteq> None \<longrightarrow> parse L (dump L (Request_json r)) = Inr (Request_json r) \<longrightarrow>
      Request_deserialize L (Request_serialize L r)
        = Inr (r\<lparr>req_params := absent_as_object (req_params r)\<rparr>))
   \<and> (notif_id n = None \<longrightarrow>
        parse L (dump L (Notification_json n)) = Inr (Notification_json n) \<longrightarrow>
        Notification_deserialize L (Notification_serialize L n)
          = Inr (n\<lparr>notif_params := absent_as_object (notif_params n)\<rparr>))
   \<and> (resp_id p \<noteq> None \<longrightarrow> resp_error p = None \<longrightarrow>
        parse L (dump L (Response_json p)) = Inr (Response_json p) \<longrightarrow>
        Response_deserialize L (Response_serialize L p) = Inr p)
   \<and> (resp_id q \<noteq> None \<longrightarrow> resp_error q = Some e \<longrightarrow> resp_result q = JObject [] \<longrightarrow>
        parse L (dump L (Response_json q)) = Inr (Response_json q) \<longrightarrow>
        Response_deserialize L (Response_serialize L q)
          = Inr (q\<lparr>resp_error := Some (e\<lparr>err_data := absent_as_object (err_data e)\<rparr>)\<rparr>))
   \<and> (req_id r = Some (IdInt i) \<longrightarrow> at_key (Request_json r) ''id'' = JInt (sint i))"
proof (intro conjI impI)
  assume "req_id r \<noteq> None" "parse L (dump L (Request_json r)) = Inr (Request_json r)"
  then show "Request_deserialize L (Request_serialize L r)
        = Inr (r\<lparr>req_params := absent_as_object (req_params r)\<rparr>)"
    by (simp add: Request_deserialize_def Request_serialize_def Request_try_def
        Request_of_json_Request_json catch_json_Inr)
next
  assume "notif_id n = None" "parse L (dump L (Notification_json n)) = Inr (Notification_json n)"
  then show "Notification_deserialize L (Notification_serialize L n)
          = Inr (n\<lparr>notif_params := absent_as_object (notif_params n)\<rparr>)"
    by (simp add: Notification_deserialize_def Notification_serialize_def Notification_try_def
        Notification_of_json_Notification_json catch_json_Inr)
next
  assume "resp_id p \<noteq> None" "resp_error p = None"
    "parse L (dump L (Response_json p)) = Inr (Response_json p)"
  then show "Response_deserialize L (Response_serialize L p) = Inr p"
    by (simp add: Response_deserialize_def Response_serialize_def Response_try_def
        Response_of_json_Response_json_result catch_json_Inr)
next
  assume "resp_id q \<noteq> None" "resp_error q = Some e" "resp_result q = JObject []"
    "parse L (dump L (Response_json q)) = Inr (Response_json q)"
  then show "Response_deserialize L (Response_serialize L q)
          = Inr (q\<lparr>resp_error := Some (e\<lparr>err_data := absent_as_object (err_data e)\<rparr>)\<rparr>)"
    by (simp add: Response_deserialize_def Response_serialize_def Response_try_def
        Response_of_json_Response_json_error catch_json_Inr)
next
  assume "req_id r = Some (IdInt i)"
  then show "at_key (Request_json r) ''id'' = JInt (sint i)"
    by (simp add: Request_json_def is_null_iff Let_def)
qed

lemmas example_defs = example_lib_def example_documents_def example_inbound_def

theorem message_round_trip_witness:
  "Request_deserialize example_lib
     (Request_serialize example_lib
        (Request_new (IdInt 7) ''tools/call'' (JObject [(''name'', JString ''echo'')])))
     = Inr (Request_new (IdInt 7) ''tools/call'' (JObject [(''name'', JString ''echo'')]))
   \<and> Notification_deserialize example_lib
       (Notification_serialize example_lib
          (Notification_new ''notifications/initialized'' (JObject [])))
     = Inr (Notification_new ''notifications/initialized'' (JObject []))
   \<and> Response_deserialize example_lib
       (Response_serialize example_lib
          (Response_result (IdInt 7) (JObject [(''echo'', JString ''No message provided'')])))
     = Inr (Response_result (IdInt 7) (JObject [(''echo'', JString ''No message provided'')]))
   \<and> Response_deserialize example_lib
       (Response_serialize example_lib
          (Response_error (IdString ''a'')
             \<lparr>err_code = MethodNotFound, what = ''Tool not found: nope'', err_data = JObject []\<rparr>))
     = Inr (Response_error (IdString ''a'')
             \<lparr>err_code = MethodNotFound, what = ''Tool not found: nope'', err_data = JObject []\<rparr>)
   \<and> at_key (Request_json (Request_new (IdInt 7) ''tools/call''
                (JObject [(''name'', JString ''echo'')]))) ''id'' = JInt 7"
  using message_round_trip
    [of "Request_new (IdInt 7) ''tools/call'' (JObject [(''name'', JString ''echo'')])"
        example_lib
        "Notification_new ''notifications/initialized'' (JObject [])"
        "Response_result (IdInt 7) (JObject [(''echo'', JString ''No message provided'')])"
        "Response_error (IdString ''a'')
             \<lparr>err_code = MethodNotFound, what = ''Tool not found: nope'', err_data = JObject []\<rparr>"
        "\<lparr>err_code = MethodNotFound, what = ''Tool not found: nope'', err_data = JObject []\<rparr>"
        7]
  by (simp add: example_defs Request_new_def Notification_new_def Response_result_def
      Response_error_def Request_json_def Notification_json_def Response_json_def toJson_def
      absent_as_object_def)

text \<open>
  Claim C3 as stated fails on a request without \<open>params\<close>: it is read back with the
  empty object as its \<open>params\<close>.
\<close>

theorem absent_params_counterexample:
  "Request_deserialize example_lib
     (Request_serialize example_lib (Request_new (IdInt 1) ''ping'' JNull))
     = Inr (Request_new (IdInt 1) ''ping'' (JObject []))
   \<and> Request_new (IdInt 1) ''ping'' (JObject []) \<noteq> Request_new (IdInt 1) ''ping'' JNull"
  by (simp add: example_defs Request_deserialize_def Request_serialize_def Request_try_def
      Request_of_json_def Request_json_def Request_new_def version_ok_def catch_json_def)


lemma version_ok_set_key_other:
  "k \<noteq> ''jsonrpc'' \<Longrightarrow> version_ok (set_key k v j) = version_ok j"
  by (simp add: version_ok_def contains_set_key_other at_key_set_key_other)

lemma contains_Response_json:
  "contains (Response_json r) ''error'' = (resp_error r \<noteq> None)"
  "contains (Response_json r) ''result'' = (resp_error r = None)"
proof -
  have a: "contains (put_id i (JObject [(''jsonrpc'', JString ''2.0'')])) k
             = (k = ''jsonrpc'' \<or> (k = ''id'' \<and> i \<noteq> None \<and> i \<noteq> Some IdNull))" for i k
  proof (cases i)
    case None
    then show ?thesis by simp
  next
    case (Some x)
    then show ?thesis by (cases x) auto
  qed
  have b: "\<exists>kvs'. put_id i (JObject kvs) = JObject kvs'" for i kvs
  proof (cases i)
    case None
    then show ?thesis by simp
  next
    case (Some x)
    then show ?thesis by (cases x) auto
  qed
  have c: "contains (set_key k w (put_id i (JObject kvs))) k" for k w i kvs
    using b [of i kvs] by (auto simp: map_of_assign)
  show "contains (Response_json r) ''error'' = (resp_error r \<noteq> None)"
    by (cases "resp_error r") (auto simp: Response_json_def contains_set_key_other a c)
  show "contains (Response_json r) ''result'' = (resp_error r = None)"
    by (cases "resp_error r")
       (auto simp: Response_json_def contains_set_key_other a c)
qed

lemma map_of_remove:
  "k' \<noteq> k \<Longrightarrow> map_of (filter (\<lambda>kv. fst kv \<noteq> k) kvs) k' = map_of kvs k'"
  by (induction kvs) auto

lemma contains_remove_key_other:
  "k' \<noteq> k \<Longrightarrow> contains (remove_key k j) k' = contains j k'"
  by (cases j) (simp_all add: map_of_remove)

lemma at_key_remove_key_other:
  "k' \<noteq> k \<Longrightarrow> at_key (remove_key k j) k' = at_key j k'"
  by (cases j) (simp_all add: map_of_remove)

lemma contains_remove_key_same: "\<not> contains (remove_key k j) k"
proof (cases j)
  case (JObject kvs)
  have "map_of (filter (\<lambda>kv. fst kv \<noteq> k) kvs) k = None"
    by (induction kvs) auto
  with JObject show ?thesis by simp
qed simp_all

lemma Response_of_json_ignores_result:
  assumes "contains json ''error''"
  shows "Response_of_json L json = Response_of_json L (remove_key ''result'' json)"
  using assms
  by (simp add: Response_of_json_def version_ok_def contains_remove_key_other
      at_key_remove_key_other cong: json.case_cong sum.case_cong)

lemma error_of_json_Inl:
  "error_of_json L j = Inl e \<Longrightarrow> \<exists>w. e = JsonExn w"
proof -
  have s: "subscript L j k = Inl e \<Longrightarrow> \<exists>w. e = JsonExn w" for k e
    by (cases j) auto
  have i: "get_int L c = Inl e \<Longrightarrow> \<exists>w. e = JsonExn w" for c e
    by (cases c) auto
  have g: "get_string L c = Inl e \<Longrightarrow> \<exists>w. e = JsonExn w" for c e
    by (cases c) auto
  assume "error_of_json L j = Inl e"
  then show ?thesis
    by (auto simp: error_of_json_def Let_def split: sum.splits if_splits dest: s i g)
qed

text \<open>
  Claim C4, as the code has it. A serialized response has exactly one of the members
  \<open>result\<close> and \<open>error\<close>, and a document with neither is rejected with
  \<open>InvalidRequest\<close>. A document with both is not rejected for having both: a document
  with an \<open>error\<close> member is read without regard to its \<open>result\<close> member, exactly as
  the same document without \<open>result\<close> is. It is accepted, as the error response, when
  its \<open>error\<close> member can be read, and rejected with \<open>ParseError\<close> when the library
  raises an exception on that member.
\<close>

theorem response_result_xor_error:
  "(contains (Response_json r) ''error'' \<noteq> contains (Response_json r) ''result'')
   \<and> (parse L s = Inr json \<longrightarrow> version_ok json \<longrightarrow>
        \<not> contains json ''error'' \<longrightarrow> \<not> contains json ''result'' \<longrightarrow>
        Response_deserialize L s
          = Inl (McpExn (MCPError_new InvalidRequest ''Missing result or error'')))
   \<and> (parse L s' = Inr json' \<longrightarrow> contains json' ''error'' \<longrightarrow>
        parse L s'' = Inr (remove_key ''result'' json') \<longrightarrow>
        Response_deserialize L s' = Response_deserialize L s'')
   \<and> (parse L s' = Inr json' \<longrightarrow> version_ok json' \<longrightarrow> contains json' ''error'' \<longrightarrow>
        error_of_json L (at_key json' ''error'') = Inr e \<longrightarrow>
        (\<exists>rid. Response_deserialize L s' = Inr (Response_error rid e)))
   \<and> (parse L t = Inr j \<longrightarrow> version_ok j \<longrightarrow> contains j ''error'' \<longrightarrow>
        error_of_json L (at_key j ''error'') = Inl x \<longrightarrow>
        Response_deserialize L t
          = Inl (McpExn (MCPError_new ParseError (''Failed to parse JSON: '' @ exn_what x))))"
proof (intro conjI impI)
  show "contains (Response_json r) ''error'' \<noteq> contains (Response_json r) ''result''"
    by (simp add: contains_Response_json)
next
  assume "parse L s = Inr json" "version_ok json" "\<not> contains json ''error''"
    "\<not> contains json ''result''"
  then show "Response_deserialize L s
          = Inl (McpExn (MCPError_new InvalidRequest ''Missing result or error''))"
    by (simp add: Response_deserialize_def Response_try_def Response_of_json_def
        catch_json_McpExn Let_def)
next
  assume "parse L s' = Inr json'" "contains json' ''error''"
    "parse L s'' = Inr (remove_key ''result'' json')"
  then show "Response_deserialize L s' = Response_deserialize L s''"
    using Response_of_json_ignores_result [of json' L]
    by (simp add: Response_deserialize_def Response_try_def)
next
  assume "parse L s' = Inr json'" "version_ok json'" "contains json' ''error''"
    "error_of_json L (at_key json' ''error'') = Inr e"
  then show "\<exists>rid. Response_deserialize L s' = Inr (Response_error rid e)"
    by (auto simp: Response_deserialize_def Response_try_def Response_of_json_def
        catch_json_Inr Let_def)
next
  assume a: "parse L t = Inr j" "version_ok j" "contains j ''error''"
    and x: "error_of_json L (at_key j ''error'') = Inl x"
  from error_of_json_Inl [OF x] obtain w where w: "x = JsonExn w" by blast
  from a x w show "Response_deserialize L t
          = Inl (McpExn (MCPError_new ParseError (''Failed to parse JSON: '' @ exn_what x)))"
    by (simp add: Response_deserialize_def Response_try_def Response_of_json_def
        catch_json_JsonExn Let_def)
qed

theorem response_result_xor_error_witness:
  \<open>Response_deserialize example_lib ''{"jsonrpc":"2.0","id":1}''
     = Inl (McpExn (MCPError_new InvalidRequest ''Missing result or error''))
   \<and> Response_deserialize example_lib
       ''{"jsonrpc":"2.0","id":1,"result":{},"error":{"code":-32601,"message":"x"}}''
     = Response_deserialize example_lib
         ''{"jsonrpc":"2.0","id":1,"error":{"code":-32601,"message":"x"}}''
   \<and> (\<exists>rid. Response_deserialize example_lib
               ''{"jsonrpc":"2.0","id":1,"result":{},"error":{"code":-32601,"message":"x"}}''
             = Inr (Response_error rid
                      \<lparr>err_code = MethodNotFound, what = ''x'', err_data = JObject []\<rparr>))
   \<and> Response_deserialize example_lib ''{"jsonrpc":"2.0","id":1,"result":{},"error":null}''
     = Inl (McpExn (MCPError_new ParseError ''Failed to parse JSON: type error''))\<close>
proof -
  let ?s = \<open>''{"jsonrpc":"2.0","id":1}''\<close>
  let ?json = "JObject [(''jsonrpc'', JString ''2.0''), (''id'', JInt 1)]"
  let ?s' = \<open>''{"jsonrpc":"2.0","id":1,"result":{},"error":{"code":-32601,"message":"x"}}''\<close>
  let ?json' = "JObject [(''jsonrpc'', JString ''2.0''), (''id'', JInt 1),
                  (''result'', JObject []),
                  (''error'', JObject [(''code'', JInt (-32601)), (''message'', JString ''x'')])]"
  let ?s'' = \<open>''{"jsonrpc":"2.0","id":1,"error":{"code":-32601,"message":"x"}}''\<close>
  let ?e = "\<lparr>err_code = MethodNotFound, what = ''x'', err_data = JObject []\<rparr>"
  let ?t = \<open>''{"jsonrpc":"2.0","id":1,"result":{},"error":null}''\<close>
  let ?j = "JObject [(''jsonrpc'', JString ''2.0''), (''id'', JInt 1),
                  (''result'', JObject []), (''error'', JNull)]"
  have p: "parse example_lib ?s = Inr ?json" "parse example_lib ?s' = Inr ?json'"
    "parse example_lib ?s'' = Inr (remove_key ''result'' ?json')"
    "parse example_lib ?t = Inr ?j"
    by (simp_all add: example_defs)
  have v: "version_ok ?json" "version_ok ?json'" "version_ok ?j"
    "\<not> contains ?json ''error''" "\<not> contains ?json ''result''"
    "contains ?json' ''error''" "contains ?j ''error''"
    by (simp_all add: version_ok_def)
  have e: "error_of_json example_lib (at_key ?json' ''error'') = Inr ?e"
    by (simp add: error_of_json_def errorCodeFromInt_def error_constants)
  have x: "error_of_json example_lib (at_key ?j ''error'') = Inl (JsonExn ''type error'')"
    by (simp add: error_of_json_def example_lib_def)
  from response_result_xor_error
    [where r = "Response_result (IdInt 1) JNull" and L = example_lib
       and s = ?s and json = ?json and s' = ?s' and json' = ?json' and s'' = ?s''
       and e = ?e and t = ?t and j = ?j and x = "JsonExn ''type error''"]
    p v e x
  show ?thesis unfolding exn_what.simps append.simps by blast
qed

text \<open>
  Claim C4 as stated fails on a document with both members: it is accepted, as an
  error response.
\<close>

theorem both_members_counterexample:
  \<open>Response_deserialize example_lib
     ''{"jsonrpc":"2.0","id":1,"result":{},"error":{"code":-32601,"message":"x"}}''
     = Inr (Response_error (IdInt 1)
              \<lparr>err_code = MethodNotFound, what = ''x'', err_data = JObject []\<rparr>)\<close>
  by (simp add: example_defs Response_deserialize_def Response_try_def Response_of_json_def
      version_ok_def error_of_json_def errorCodeFromInt_def error_constants catch_json_def)


section \<open>Properties of the server\<close>

lemma handlers_initialized:
  "handleInitialize (srv\<lparr>initialized := b\<rparr>) params = handleInitialize srv params"
  "handleToolCall L (srv\<lparr>initialized := b\<rparr>) params = handleToolCall L srv params"
  "handleToolsList (srv\<lparr>initialized := b\<rparr>) params = handleToolsList srv params"
  "handleResourceRead L (srv\<lparr>initialized := b\<rparr>) params = handleResourceRead L srv params"
  "handleResourcesList (srv\<lparr>initialized := b\<rparr>) params = handleResourcesList srv params"
  "handlePromptGet L (srv\<lparr>initialized := b\<rparr>) params = handlePromptGet L srv params"
  "handlePromptsList (srv\<lparr>initialized := b\<rparr>) params = handlePromptsList srv params"
  by (simp_all add: handleInitialize_def handleToolCall_def handleToolsList_def
      handleResourceRead_def handleResourcesList_def handlePromptGet_def handlePromptsList_def
      Let_def cong: sum.case_cong if_cong)

lemma dispatch_initialized:
  "dispatch L (srv\<lparr>initialized := b\<rparr>) method params = dispatch L srv method params"
  by (simp add: dispatch_def handlers_initialized)

lemma write_response_initialized:
  "write_response T L response (srv\<lparr>initialized := b\<rparr>)
     = (fst (write_response T L response srv),
        (snd (write_response T L response srv))\<lparr>initialized := b\<rparr>)"
  by (simp add: write_response_def split: prod.splits)

lemma handleRequest_try_initialized:
  "handleRequest_try T L rid method params (srv\<lparr>initialized := b\<rparr>)
     = (fst (handleRequest_try T L rid method params srv),
        (snd (handleRequest_try T L rid method params srv))\<lparr>initialized := b\<rparr>)"
  by (simp add: handleRequest_try_def dispatch_initialized write_response_initialized
      split: sum.splits prod.splits bool.splits)

text \<open>
  Claim C1, as the code has it. \<open>handleRequest\<close> never reads the flag that
  \<open>notifications/initialized\<close> sets: on a session that has not received the
  notification a request gets the answer, and leaves the state, that it would on one
  that has. A request is dispatched on its method alone, whatever the phase.
\<close>

theorem request_dispatch_ignores_phase:
  "handleRequest T L request (srv\<lparr>initialized := b\<rparr>)
     = (case handleRequest T L request srv of
          Inl e \<Rightarrow> Inl e
        | Inr srv' \<Rightarrow> Inr (srv'\<lparr>initialized := b\<rparr>))"
  by (simp add: handleRequest_def handleRequest_try_initialized write_response_initialized
      Let_def split: option.splits prod.splits exn.splits)

theorem request_dispatch_ignores_phase_witness:
  \<open>handleRequest StdioT example_lib (Request_new (IdInt 2) ''tools/list'' (JObject []))
     (example_server\<lparr>initialized := True\<rparr>)
     = Inr (example_server\<lparr>initialized := True, process :=
         example_process\<lparr>cout := ''{"id":2,"jsonrpc":"2.0","result":{"tools":[]}}'' @ [CHR 0x0A]\<rparr>\<rparr>)\<close>
proof -
  have a: \<open>handleRequest StdioT example_lib (Request_new (IdInt 2) ''tools/list'' (JObject []))
     example_server
     = Inr (example_server\<lparr>process :=
         example_process\<lparr>cout := ''{"id":2,"jsonrpc":"2.0","result":{"tools":[]}}'' @ [CHR 0x0A]\<rparr>\<rparr>)\<close>
    by (simp add: example_defs example_server_def example_stdio_def example_process_def Request_new_def
      handleRequest_def handleRequest_try_def
      dispatch_def handleToolsList_def write_response_def Response_serialize_def
      Response_json_def Response_result_def StdioT_def Stdio_write_def Stdio_isConnected_def
      Logger_log_def)
  show ?thesis
    using request_dispatch_ignores_phase
      [where T = StdioT and L = example_lib and srv = example_server and b = True
         and request = "Request_new (IdInt 2) ''tools/list'' (JObject [])"]
    by (simp add: a)
qed

text \<open>
  Claim C1 as stated fails: a server that has received neither \<open>initialize\<close> nor
  \<open>notifications/initialized\<close> answers \<open>tools/list\<close> with its result.
\<close>

theorem request_before_initialized_counterexample:
  \<open>initialized example_server = False
   \<and> handleMessage StdioT example_lib ''{"jsonrpc":"2.0","id":2,"method":"tools/list"}''
       example_server
     = example_server\<lparr>process :=
         example_process\<lparr>cout := ''{"id":2,"jsonrpc":"2.0","result":{"tools":[]}}'' @ [CHR 0x0A]\<rparr>\<rparr>\<close>
  by (simp add: example_defs example_server_def example_stdio_def example_process_def handleMessage_def
      handleMessage_try_def Request_deserialize_def Request_try_def Request_of_json_def
      version_ok_def catch_json_def Request_new_def handleRequest_def handleRequest_try_def
      dispatch_def handleToolsList_def write_response_def Response_serialize_def
      Response_json_def Response_result_def StdioT_def Stdio_write_def Stdio_isConnected_def
      Logger_log_def)


text \<open>
  A request read by \<open>Request::deserialize\<close> always has an id, the null id when the
  document has none. So \<open>handleMessage\<close> hands every message it can read to
  \<open>handleRequest\<close>, never to \<open>handleNotification\<close>, and no inbound message changes
  the flag \<open>initialized\<close>.
\<close>

lemma Request_deserialize_has_id:
  "Request_deserialize L message = Inr request \<Longrightarrow> req_id request \<noteq> None"
  by (auto simp: Request_deserialize_def Request_try_def Request_of_json_def catch_json_def
      Request_new_def Let_def split: sum.splits if_splits exn.splits)

lemma initialized_write_response:
  "initialized (snd (write_response T L response srv)) = initialized srv"
  by (simp add: write_response_def split: prod.splits)

lemma initialized_handleRequest_try:
  "handleRequest_try T L rid method params srv = (e, srv') \<Longrightarrow>
     initialized srv' = initialized srv"
  by (auto simp: handleRequest_try_def write_response_def Let_def
      split: sum.splits prod.splits bool.splits)

lemma initialized_handleRequest:
  "handleRequest T L request srv = Inr srv' \<Longrightarrow> initialized srv' = initialized srv"
proof -
  assume h: "handleRequest T L request srv = Inr srv'"
  then obtain rid where rid: "req_id request = Some rid"
    by (cases "req_id request") (auto simp: handleRequest_def Let_def)
  obtain e s1 where t:
    "handleRequest_try T L rid (req_method request) (req_params request) srv = (e, s1)"
    by (cases "handleRequest_try T L rid (req_method request) (req_params request) srv")
  from initialized_handleRequest_try [OF t] have i: "initialized s1 = initialized srv" .
  from h rid t have "srv' = s1 \<or> (\<exists>r. srv' = snd (write_response T L r s1))"
    by (auto simp: handleRequest_def Let_def split: option.splits exn.splits)
  with i show ?thesis by (auto simp: initialized_write_response)
qed

lemma handleMessage_never_initializes:
  "initialized (handleMessage T L message srv) = initialized srv"
proof (cases "Request_deserialize L message")
  case (Inl e)
  then show ?thesis by (simp add: handleMessage_def handleMessage_try_def)
next
  case (Inr request)
  with Request_deserialize_has_id [OF Inr] show ?thesis
    by (cases "handleRequest T L request srv")
       (auto simp: handleMessage_def handleMessage_try_def dest: initialized_handleRequest)
qed

lemma capabilities_members:
  fixes srv :: "'tr MCPServer"
  defines "c1 \<equiv> (if tool_registry srv \<noteq> [] then set_key ''tools'' (JObject []) JNull else JNull)"
  defines "c2 \<equiv> (if resource_registry srv \<noteq> [] then set_key ''resources'' (JObject []) c1 else c1)"
  defines "c3 \<equiv> (if prompt_registry srv \<noteq> [] then set_key ''prompts'' (JObject []) c2 else c2)"
  shows "contains c3 ''tools'' = (tool_registry srv \<noteq> [])"
    and "contains c3 ''resources'' = (resource_registry srv \<noteq> [])"
    and "contains c3 ''prompts'' = (prompt_registry srv \<noteq> [])"
  by (auto simp: c1_def c2_def c3_def)

text \<open>
  Claim C2, as the code has it. An \<open>initialize\<close> request whose \<open>params\<close> have a
  \<open>clientInfo\<close> with a \<open>name\<close> and a \<open>version\<close> gets a result with the protocol version
  \<open>2024-11-05\<close>, the capabilities (one member for each registry that is not empty) and
  the server's name and version. The \<open>protocolVersion\<close> of the request has no effect
  on the answer.
\<close>

theorem initialize_fixed_version:
  "(contains params ''clientInfo'' \<longrightarrow> contains (at_key params ''clientInfo'') ''name'' \<longrightarrow>
      contains (at_key params ''clientInfo'') ''version'' \<longrightarrow>
      (\<exists>capabilities.
         handleInitialize srv params
           = Inr (JObject [(''protocolVersion'', JString ''2024-11-05''),
                           (''capabilities'', capabilities),
                           (''serverInfo'',
                            JObject [(''name'', JString (server_name srv)),
                                     (''version'', JString (server_version srv))])])
         \<and> contains capabilities ''tools'' = (tool_registry srv \<noteq> [])
         \<and> contains capabilities ''resources'' = (resource_registry srv \<noteq> [])
         \<and> contains capabilities ''prompts'' = (prompt_registry srv \<noteq> [])))
   \<and> handleInitialize srv (set_key ''protocolVersion'' v params) = handleInitialize srv params
   \<and> dispatch L srv ''initialize'' params = handleInitialize srv params"
proof (intro conjI impI)
  assume "contains params ''clientInfo''" "contains (at_key params ''clientInfo'') ''name''"
    "contains (at_key params ''clientInfo'') ''version''"
  then show "\<exists>capabilities.
         handleInitialize srv params
           = Inr (JObject [(''protocolVersion'', JString ''2024-11-05''),
                           (''capabilities'', capabilities),
                           (''serverInfo'',
                            JObject [(''name'', JString (server_name srv)),
                                     (''version'', JString (server_version srv))])])
         \<and> contains capabilities ''tools'' = (tool_registry srv \<noteq> [])
         \<and> contains capabilities ''resources'' = (resource_registry srv \<noteq> [])
         \<and> contains capabilities ''prompts'' = (prompt_registry srv \<noteq> [])"
    using capabilities_members [of srv]
    by (simp add: handleInitialize_def Let_def)
next
  show "handleInitialize srv (set_key ''protocolVersion'' v params) = handleInitialize srv params"
    by (simp add: handleInitialize_def contains_set_key_other at_key_set_key_other)
next
  show "dispatch L srv ''initialize'' params = handleInitialize srv params"
    by (simp add: dispatch_def)
qed

theorem initialize_fixed_version_witness:
  "handleInitialize example_server
     (JObject [(''protocolVersion'', JString ''2024-11-05''),
               (''clientInfo'', JObject [(''name'', JString ''c''), (''version'', JString ''1'')]),
               (''capabilities'', JObject [])])
     = Inr (JObject [(''protocolVersion'', JString ''2024-11-05''),
                     (''capabilities'', JNull),
                     (''serverInfo'',
                      JObject [(''name'', JString ''s''), (''version'', JString ''1'')])])"
  using initialize_fixed_version
    [of "JObject [(''protocolVersion'', JString ''2024-11-05''),
               (''clientInfo'', JObject [(''name'', JString ''c''), (''version'', JString ''1'')]),
               (''capabilities'', JObject [])]" example_server JNull example_lib]
  by (simp add: example_server_def handleInitialize_def)

text \<open>
  Claim C2 as stated fails: to a client that asks for the version \<open>2025-06-18\<close> the
  server answers with the version \<open>2024-11-05\<close>, which the client did not offer, and
  with no error.
\<close>

theorem initialize_version_counterexample:
  "handleInitialize example_server
     (JObject [(''protocolVersion'', JString ''2025-06-18''),
               (''clientInfo'', JObject [(''name'', JString ''c''), (''version'', JString ''1'')]),
               (''capabilities'', JObject [])])
     = Inr (JObject [(''protocolVersion'', JString ''2024-11-05''),
                     (''capabilities'', JNull),
                     (''serverInfo'',
                      JObject [(''name'', JString ''s''), (''version'', JString ''1'')])])"
  by (simp add: example_server_def handleInitialize_def)


section \<open>Inbound requests\<close>

lemma Logger_log_line:
  "Logger_log lv message p =
     (if LogLevel_value lv < LogLevel_value (log_level p) then p
      else p\<lparr>cout := cout p @ log_line p lv message,
             timestamp_calls := timestamp_calls p + 1\<rparr>)"
  by (simp add: Logger_log_def log_line_def)

lemma write_response_eq:
  "write_response T L response srv
     = (fst (t_write T (dump L (Response_json response)) (transport srv) (process srv)),
        srv\<lparr>transport :=
              fst (snd (t_write T (dump L (Response_json response)) (transport srv)
                          (process srv))),
            process :=
              snd (snd (t_write T (dump L (Response_json response)) (transport srv)
                          (process srv)))\<rparr>)"
  by (simp add: write_response_def Response_serialize_def split: prod.splits)

lemma wire_id_cases:
  assumes "wire_id j = Some rid"
  obtains n where "j = JInt n" "- (2 ^ 31) \<le> n" "n < 2 ^ 31" "rid = IdInt (word_of_int n)"
  | s where "j = JString s" "rid = IdString s"
  using assms by (cases j) (auto split: if_splits)

lemma sint_word_of_int_32:
  "- (2 ^ 31) \<le> n \<Longrightarrow> n < 2 ^ 31 \<Longrightarrow> sint (word_of_int n :: 32 word) = n"
  by (simp add: sint_sbintrunc' signed_take_bit_int_eq_self)

lemma put_id_wire:
  assumes "wire_id j = Some rid"
  shows "put_id (Some rid) (JObject kvs) = JObject (assign ''id'' j kvs)"
  using assms by (rule wire_id_cases) (simp_all add: sint_word_of_int_32)

lemma Request_deserialize_document:
  assumes "parse L message = Inr json" "version_ok json" "contains json ''method''"
    "at_key json ''method'' = JString m" "contains json ''id''"
    "wire_id (at_key json ''id'') = Some rid"
  shows "Request_deserialize L message
           = Inr (Request_new rid m
                    (if contains json ''params'' then at_key json ''params'' else JObject []))"
  using assms(6)
proof (rule wire_id_cases)
  fix n assume "at_key json ''id'' = JInt n" "rid = IdInt (word_of_int n)"
  with assms show ?thesis
    by (simp add: Request_deserialize_def Request_try_def Request_of_json_def catch_json_Inr)
next
  fix s assume "at_key json ''id'' = JString s" "rid = IdString s"
  with assms show ?thesis
    by (simp add: Request_deserialize_def Request_try_def Request_of_json_def catch_json_Inr)
qed

lemma handleMessage_request:
  assumes "Request_deserialize L message = Inr request" "req_id request = Some rid"
    "handleRequest T L request srv = Inr srv'"
  shows "handleMessage T L message srv = srv'"
  using assms by (simp add: handleMessage_def handleMessage_try_def)

lemma handleRequest_error:
  assumes "req_id request = Some rid"
    "dispatch L srv (req_method request) (req_params request) = Inl (McpExn e)"
  shows "handleRequest T L request srv = Inr (snd (write_response T L (Response_error rid e) srv))"
  using assms by (simp add: handleRequest_def handleRequest_try_def)




lemma dispatch_unknown:
  "method \<notin> set request_methods \<Longrightarrow>
     dispatch L srv method params
       = Inl (McpExn (MCPError_new MethodNotFound (''Method not found: '' @ method)))"
  by (simp add: dispatch_def request_methods_def)

lemma Response_json_error_wire:
  assumes "wire_id j = Some rid"
  shows "Response_json (Response_error rid (MCPError_new code message))
           = JObject [(''jsonrpc'', JString ''2.0''), (''id'', j),
                      (''error'', JObject [(''code'', JInt (ErrorCode_value code)),
                                           (''message'', JString message)])]"
  using put_id_wire [OF assms, of "[(''jsonrpc'', JString ''2.0'')]"]
  by (simp add: Response_json_def Response_error_def MCPError_new_def toJson_def)

text \<open>
  Claim C5, as the code has it. A request document that arrives with a method that is
  none of those \<open>handleRequest\<close> knows, and with an id that is a string or an integer
  in the range of \<open>int\<close>, is answered by one call of the transport's \<open>write\<close>. The
  frame is the document with that same id, the error code -32601 (the value of
  \<open>MethodNotFound\<close>, also under \<open>errorCodeToInt\<close>) and no result. Nothing else in the
  server changes; the three registries are as before.
\<close>

theorem unknown_method_not_found:
  assumes "parse L message = Inr json" and "version_ok json"
    and "contains json ''method''" and "at_key json ''method'' = JString m"
    and "m \<notin> set request_methods"
    and "contains json ''id''" and "wire_id (at_key json ''id'') = Some rid"
  shows "let frame = dump L (JObject [(''jsonrpc'', JString ''2.0''),
                                     (''id'', at_key json ''id''),
                                     (''error'',
                                      JObject [(''code'', JInt (-32601)),
                                               (''message'',
                                                JString (''Method not found: '' @ m))])]);
             w = t_write T frame (transport srv) (process srv);
             srv' = handleMessage T L message srv
         in srv' = srv\<lparr>transport := fst (snd w), process := snd (snd w)\<rparr>
            \<and> errorCodeToInt MethodNotFound = -32601
            \<and> tool_registry srv' = tool_registry srv
            \<and> resource_registry srv' = resource_registry srv
            \<and> prompt_registry srv' = prompt_registry srv"
proof -
  let ?request = "Request_new rid m
                    (if contains json ''params'' then at_key json ''params'' else JObject [])"
  let ?e = "MCPError_new MethodNotFound (''Method not found: '' @ m)"
  have d: "Request_deserialize L message = Inr ?request"
    by (rule Request_deserialize_document [OF assms(1,2,3,4,6,7)])
  have i: "req_id ?request = Some rid" and me: "req_method ?request = m"
    by (simp_all add: Request_new_def)
  have "dispatch L srv (req_method ?request) (req_params ?request) = Inl (McpExn ?e)"
    using assms(5) by (simp add: me dispatch_unknown)
  from handleRequest_error [OF i this, of T]
  have "handleMessage T L message srv = snd (write_response T L (Response_error rid ?e) srv)"
    by (rule handleMessage_request [OF d i])
  then show ?thesis
    by (simp add: write_response_eq Response_json_error_wire [OF assms(7)] Let_def
        error_constants)
qed

theorem unknown_method_not_found_witness:
  \<open>handleMessage StdioT example_lib ''{"jsonrpc":"2.0","id":4,"method":"nope"}'' example_server
     = example_server\<lparr>process :=
         example_process\<lparr>cout :=
           ''{"error":{"code":-32601,"message":"Method not found: nope"},"id":4,"jsonrpc":"2.0"}''
             @ [CHR 0x0A]\<rparr>\<rparr>\<close>
proof -
  let ?json = "JObject [(''jsonrpc'', JString ''2.0''), (''id'', JInt 4),
                        (''method'', JString ''nope'')]"
  have p: \<open>parse example_lib ''{"jsonrpc":"2.0","id":4,"method":"nope"}'' = Inr ?json\<close>
    by (simp add: example_defs)
  have v: "version_ok ?json" "contains ?json ''method''"
    "at_key ?json ''method'' = JString ''nope''" "''nope'' \<notin> set request_methods"
    "contains ?json ''id''" "wire_id (at_key ?json ''id'') = Some (IdInt 4)"
    by (simp_all add: version_ok_def request_methods_def)
  have d: \<open>dump example_lib
             (JObject [(''jsonrpc'', JString ''2.0''), (''id'', at_key ?json ''id''),
                       (''error'', JObject [(''code'', JInt (-32601)),
                                            (''message'',
                                             JString (''Method not found: '' @ ''nope''))])])
           = ''{"error":{"code":-32601,"message":"Method not found: nope"},"id":4,"jsonrpc":"2.0"}''\<close>
    by (simp add: example_defs)
  show ?thesis
    using unknown_method_not_found [OF p v, of StdioT example_server]
    unfolding d Let_def
    by (simp add: example_server_def example_stdio_def example_process_def StdioT_def
        Stdio_write_def Stdio_isConnected_def)
qed

text \<open>
  Claim C5 as stated fails on an integer id outside the range of \<open>int\<close>: the request
  with id 4294967297 is answered under the id 1.
\<close>

theorem wide_id_counterexample:
  \<open>handleMessage StdioT example_lib ''{"jsonrpc":"2.0","id":4294967297,"method":"nope"}''
     example_server
     = example_server\<lparr>process :=
         example_process\<lparr>cout :=
           ''{"error":{"code":-32601,"message":"Method not found: nope"},"id":1,"jsonrpc":"2.0"}''
             @ [CHR 0x0A]\<rparr>\<rparr>\<close>
  by (simp add: example_defs example_server_def example_stdio_def example_process_def
      handleMessage_def handleMessage_try_def Request_deserialize_def Request_try_def
      Request_of_json_def version_ok_def catch_json_def Request_new_def handleRequest_def
      handleRequest_try_def dispatch_def write_response_def Response_serialize_def
      Response_json_def Response_error_def MCPError_new_def toJson_def StdioT_def
      Stdio_write_def Stdio_isConnected_def)

text \<open>
  Claim C6, as the code has it. On a message that the JSON library cannot parse,
  \<open>handleMessage\<close> builds no response and does not call the transport, whose state
  (open or not) is as before. It hands one message to the logger at the level
  \<open>ERROR\<close>, and nothing else changes. Unless its level is \<open>FATAL\<close>, the logger
  prints the message as one line on the standard output of the process, after what
  is there.
\<close>

theorem parse_failure_logged:
  assumes "parse L message = Inl w"
  shows "handleMessage T L message srv
           = srv\<lparr>process := Logger_log ERROR
                               (''Failed to handle message: Failed to parse JSON: '' @ w)
                               (process srv)\<rparr>
         \<and> transport (handleMessage T L message srv) = transport srv
         \<and> cout (process (handleMessage T L message srv))
             = (if log_level (process srv) = FATAL then cout (process srv)
                else cout (process srv)
                       @ log_line (process srv) ERROR
                           (''Failed to handle message: Failed to parse JSON: '' @ w))"
proof -
  have "handleMessage T L message srv
           = srv\<lparr>process := Logger_log ERROR
                               (''Failed to handle message: Failed to parse JSON: '' @ w)
                               (process srv)\<rparr>"
    using assms
    by (simp add: handleMessage_def handleMessage_try_def Request_deserialize_def
        Request_try_def catch_json_JsonExn MCPError_new_def)
  then show ?thesis
    by (cases "log_level (process srv)") (simp_all add: Logger_log_line)
qed

theorem parse_failure_logged_witness:
  \<open>handleMessage StdioT example_lib ''{"jsonrpc":"2.0","id":6,"method":'' example_server
     = example_server\<lparr>process :=
         example_process\<lparr>cout :=
           ''[2025-01-01 00:00:00.000] [ERROR] Failed to handle message: Failed to parse JSON: syntax error''
             @ [CHR 0x0A],
           timestamp_calls := 1\<rparr>\<rparr>\<close>
proof -
  have p: \<open>parse example_lib ''{"jsonrpc":"2.0","id":6,"method":'' = Inl ''syntax error''\<close>
    by (simp add: example_defs)
  show ?thesis
    using parse_failure_logged [OF p, of StdioT example_server]
    by (simp add: example_server_def example_process_def Logger_log_def)
qed

text \<open>
  Claim C6 as stated fails: after a truncated document, what the server has put on its
  output is a line of the logger, not a response with the code -32700.
\<close>

theorem parse_failure_counterexample:
  \<open>cout (process
     (handleMessage StdioT example_lib ''{"jsonrpc":"2.0","id":6,"method":'' example_server))
     = ''[2025-01-01 00:00:00.000] [ERROR] Failed to handle message: Failed to parse JSON: syntax error''
         @ [CHR 0x0A]\<close>
  by (simp add: example_defs example_server_def example_process_def handleMessage_def
      handleMessage_try_def Request_deserialize_def Request_try_def catch_json_def
      MCPError_new_def Logger_log_def)


section \<open>Tool calls\<close>







section \<open>Properties of the client\<close>

lemma Response_of_json_id:
  assumes "Response_of_json L json = Inr response" "contains json ''id''"
    "wire_id (at_key json ''id'') = Some rid"
  shows "resp_id response = Some rid"
  using assms(3)
proof (rule wire_id_cases)
  fix n assume "at_key json ''id'' = JInt n" "rid = IdInt (word_of_int n)"
  with assms(1,2) show ?thesis
    by (auto simp: Response_of_json_def Response_error_def Response_result_def Let_def
        split: if_splits sum.splits)
next
  fix s assume "at_key json ''id'' = JString s" "rid = IdString s"
  with assms(1,2) show ?thesis
    by (auto simp: Response_of_json_def Response_error_def Response_result_def Let_def
        split: if_splits sum.splits)
qed

lemma client_handleMessage_response:
  assumes "parse L message = Inr json" "Response_of_json L json = Inr response"
    "resp_id response = Some rid"
  shows "client_handleMessage L message cl
           = (case handleResponse response cl of
                (None, cl') \<Rightarrow> cl'
              | (Some e, cl') \<Rightarrow>
                  cl'\<lparr>c_process := Logger_log ERROR (''Failed to handle message: '' @ exn_what e)
                                      (c_process cl')\<rparr>)"
  using assms
  by (simp add: client_handleMessage_def client_handleMessage_try_def Response_deserialize_def
      Response_try_def catch_json_Inr)

lemma Request_json_id_wire:
  assumes "wire_id j = Some rid"
  shows "at_key (Request_json (Request_new rid method params)) ''id'' = j"
  using assms
  by (rule wire_id_cases)
     (simp_all add: Request_json_def Request_new_def Let_def sint_word_of_int_32)

text \<open>
  Claim C8, as the code has it. For a response document that arrives with an id that
  is a string or an integer in the range of \<open>int\<close>, the id read is the one a request
  sent under that id carries. If it has an entry in the map of pending requests, the
  promise of that entry is completed with the response and the entry is removed (and
  the response is passed to the response callback when one is set); the same document
  arriving again finds no entry, so the promise is completed once. If it has no
  entry, nothing changes in the client but the process: the transport is not used,
  and the logger is handed one warning, which it prints as one line on the standard
  output of the process unless its level is above \<open>WARN\<close>.
\<close>

theorem response_correlation:
  assumes "parse L message = Inr json" and "Response_of_json L json = Inr response"
    and "contains json ''id''" and "wire_id (at_key json ''id'') = Some rid"
  shows "resp_id response = Some rid
       \<and> at_key (Request_json (Request_new rid meth ps)) ''id'' = at_key json ''id''
       \<and> (pending_requests cl rid = Some p \<longrightarrow> p < length (promises cl) \<longrightarrow>
            promises cl ! p = Unset \<longrightarrow>
            (\<exists>cl'. client_handleMessage L message cl = cl'
               \<and> cl' = cl\<lparr>pending_requests := (pending_requests cl)(rid := None),
                           promises := (promises cl)[p := Value response],
                           responseCallback_calls :=
                             (if has_responseCallback cl
                              then responseCallback_calls cl @ [(rid, response)]
                              else responseCallback_calls cl)\<rparr>
               \<and> client_handleMessage L message cl'
                   = cl'\<lparr>c_process := Logger_log WARN ''Received response for unknown request ID''
                                          (c_process cl')\<rparr>))
       \<and> (pending_requests cl rid = None \<longrightarrow>
            client_handleMessage L message cl
              = cl\<lparr>c_process := Logger_log WARN ''Received response for unknown request ID''
                                    (c_process cl)\<rparr>)
       \<and> cout (Logger_log WARN ''Received response for unknown request ID'' pr)
           = (if LogLevel_value (log_level pr) \<le> LogLevel_value WARN
              then cout pr @ log_line pr WARN ''Received response for unknown request ID''
              else cout pr)"
proof -
  have i: "resp_id response = Some rid"
    by (rule Response_of_json_id [OF assms(2,3,4)])
  note h = client_handleMessage_response [OF assms(1,2) i]
  have "cout (Logger_log WARN ''Received response for unknown request ID'' pr)
           = (if LogLevel_value (log_level pr) \<le> LogLevel_value WARN
              then cout pr @ log_line pr WARN ''Received response for unknown request ID''
              else cout pr)"
    by (cases "log_level pr") (simp_all add: Logger_log_line)
  then show ?thesis
    using i Request_json_id_wire [OF assms(4), of meth ps]
    by (simp add: h handleResponse_def set_value_def)
qed

theorem response_correlation_witness:
  \<open>client_handleMessage example_lib ''{"jsonrpc":"2.0","id":1,"result":{}}'' example_client
     = example_client\<lparr>pending_requests := Map.empty,
                       promises := [Value (Response_result (IdInt 1) (JObject []))]\<rparr>
   \<and> client_handleMessage example_lib ''{"jsonrpc":"2.0","id":9,"result":{}}'' example_client
     = example_client\<lparr>c_process :=
         example_process\<lparr>cout :=
           ''[2025-01-01 00:00:00.000] [WARN] Received response for unknown request ID''
             @ [CHR 0x0A],
           timestamp_calls := 1\<rparr>\<rparr>\<close>
proof -
  let ?m1 = \<open>''{"jsonrpc":"2.0","id":1,"result":{}}''\<close>
  let ?j1 = "JObject [(''jsonrpc'', JString ''2.0''), (''id'', JInt 1), (''result'', JObject [])]"
  let ?m9 = \<open>''{"jsonrpc":"2.0","id":9,"result":{}}''\<close>
  let ?j9 = "JObject [(''jsonrpc'', JString ''2.0''), (''id'', JInt 9), (''result'', JObject [])]"
  have p: "parse example_lib ?m1 = Inr ?j1" "parse example_lib ?m9 = Inr ?j9"
    by (simp_all add: example_defs)
  have r: "Response_of_json example_lib ?j1 = Inr (Response_result (IdInt 1) (JObject []))"
    "Response_of_json example_lib ?j9 = Inr (Response_result (IdInt 9) (JObject []))"
    by (simp_all add: Response_of_json_def version_ok_def)
  have c: "contains ?j1 ''id''" "wire_id (at_key ?j1 ''id'') = Some (IdInt 1)"
    "contains ?j9 ''id''" "wire_id (at_key ?j9 ''id'') = Some (IdInt 9)"
    by simp_all
  have s: "pending_requests example_client (IdInt 1) = Some 0"
    "0 < length (promises example_client)" "promises example_client ! 0 = Unset"
    "pending_requests example_client (IdInt 9) = None"
    by (simp_all add: example_client_def)
  from response_correlation [OF p(1) r(1) c(1,2), where cl = example_client and p = 0
      and meth = "''ping''" and ps = JNull and pr = example_process] s(1,2,3)
  have a: "client_handleMessage example_lib ?m1 example_client
     = example_client\<lparr>pending_requests := Map.empty,
                       promises := [Value (Response_result (IdInt 1) (JObject []))]\<rparr>"
    by (simp add: example_client_def)
  from response_correlation [OF p(2) r(2) c(3,4), where cl = example_client and p = 0
      and meth = "''ping''" and ps = JNull and pr = example_process] s(4)
  have b: \<open>client_handleMessage example_lib ?m9 example_client
     = example_client\<lparr>c_process :=
         example_process\<lparr>cout :=
           ''[2025-01-01 00:00:00.000] [WARN] Received response for unknown request ID''
             @ [CHR 0x0A],
           timestamp_calls := 1\<rparr>\<rparr>\<close>
    by (simp add: example_client_def example_process_def Logger_log_def)
  from a b show ?thesis by simp
qed

text \<open>
  Claim C8 as stated fails on an integer id outside the range of \<open>int\<close>: with the
  request 1 pending, a response with the id 4294967297, which is the id of no pending
  request, completes the promise of request 1 and removes its entry.
\<close>

theorem wide_response_id_counterexample:
  \<open>client_handleMessage example_lib ''{"jsonrpc":"2.0","id":4294967297,"result":{}}''
     example_client
     = example_client\<lparr>pending_requests := Map.empty,
                       promises := [Value (Response_result (IdInt 1) (JObject []))]\<rparr>\<close>
proof -
  have w: "(4294967297 :: 32 word) = 1"
    by (simp add: word_eq_iff_unsigned [where ?'a = nat])
  show ?thesis
    by (simp add: example_defs example_client_def client_handleMessage_def
        client_handleMessage_try_def Response_deserialize_def Response_try_def
        Response_of_json_def version_ok_def catch_json_def Response_result_def
        handleResponse_def set_value_def w)
qed

text \<open>
  Claim C9. When the client is connected and the transport's write fails,
  \<open>sendRequest\<close> returns a future that holds the exception, and the map of pending
  requests has no entry for the new id: it is the map from before the call, the new id
  not being in use.
\<close>

theorem failed_send_leaves_no_entry:
  assumes "isConnected T (c_transport cl)"
    and "t_write T
           (Request_serialize L (Request_new (IdInt (request_id_counter cl + 1)) method params))
           (c_transport cl) (c_process cl) = (False, tr, pr)"
  shows "\<exists>future cl'.
           sendRequest T L method params cl = Inr (future, cl')
           \<and> pending_requests cl'
               = (pending_requests cl)(IdInt (request_id_counter cl + 1) := None)
           \<and> (pending_requests cl (IdInt (request_id_counter cl + 1)) = None \<longrightarrow>
                pending_requests cl' = pending_requests cl)
           \<and> future < length (promises cl')
           \<and> promises cl' ! future = Exception ''Failed to send request''
           \<and> c_transport cl' = tr
           \<and> c_process cl' = pr"
  using assms
  by (auto simp: sendRequest_def set_exception_def Let_def nth_append)

theorem failed_send_leaves_no_entry_witness:
  "\<exists>future cl'.
     sendRequest failing_transport example_lib ''tools/list'' (JObject []) failing_client
       = Inr (future, cl')
     \<and> pending_requests cl' = pending_requests failing_client
     \<and> promises cl' ! future = Exception ''Failed to send request''"
proof -
  have a: "isConnected failing_transport (c_transport failing_client)"
    by (simp add: failing_transport_def)
  have b: "t_write failing_transport
             (Request_serialize example_lib
                (Request_new (IdInt (request_id_counter failing_client + 1)) ''tools/list''
                   (JObject [])))
             (c_transport failing_client) (c_process failing_client)
           = (False, (), c_process failing_client)"
    by (simp add: failing_transport_def)
  have c: "pending_requests failing_client (IdInt (request_id_counter failing_client + 1)) = None"
    by (simp add: failing_client_def)
  from failed_send_leaves_no_entry [OF a b] c show ?thesis
    by blast
qed

section \<open>Properties of the stdio transport\<close>

lemma getline_segments:
  "getline s = Some (l, r) \<Longrightarrow> segments s = l # segments r"
proof (induction s arbitrary: l r)
  case Nil
  then show ?case by simp
next
  case (Cons c cs)
  show ?case
  proof (cases "c = CHR 0x0A")
    case True
    with Cons.prems show ?thesis by auto
  next
    case False
    show ?thesis
    proof (cases cs)
      case Nil
      with False Cons.prems show ?thesis by auto
    next
      case (Cons c' cs')
      then obtain l' r' where g: "getline cs = Some (l', r')" by (cases "getline cs") auto
      from Cons.IH [OF g] have s: "segments cs = l' # segments r'" .
      from g Cons False Cons.prems have "l = c # l'" "r = r'" by auto
      with s False show ?thesis by simp
    qed
  qed
qed

lemma segments_no_newline: "l \<in> set (segments s) \<Longrightarrow> CHR 0x0A \<notin> set l"
proof (induction s arbitrary: l)
  case Nil
  then show ?case by simp
next
  case (Cons c cs)
  then show ?case
    by (cases "segments cs") (auto split: if_splits)
qed

lemma segments_concat:
  "concat (map (\<lambda>l. l @ [CHR 0x0A]) (segments s))
     = (if s = [] \<or> last s = CHR 0x0A then s else s @ [CHR 0x0A])"
proof (induction s)
  case Nil
  then show ?case by simp
next
  case (Cons c cs)
  then show ?case
    by (cases "segments cs"; cases cs) (auto split: if_splits)
qed

lemma read_thread_delivered:
  "st_running t \<Longrightarrow> has_onMessage t \<Longrightarrow>
     delivered (read_thread t) = delivered t @ filter (\<lambda>l. l \<noteq> []) (segments (cin t))"
proof (induction t rule: read_thread.induct)
  case (1 t)
  show ?case
  proof (cases "getline (cin t)")
    case None
    then have "cin t = []" by (cases "cin t") auto
    with None 1 show ?thesis by (subst read_thread.simps) simp
  next
    case (Some x)
    obtain line rest where x: "x = (line, rest)" by (cases x)
    let ?t' = "if line \<noteq> [] \<and> has_onMessage t
               then t\<lparr>cin := rest, delivered := delivered t @ [line]\<rparr>
               else t\<lparr>cin := rest\<rparr>"
    have r: "read_thread t = read_thread ?t'"
      using Some x 1(2) by (subst read_thread.simps) simp
    have "delivered (read_thread ?t')
            = delivered ?t' @ filter (\<lambda>l. l \<noteq> []) (segments (cin ?t'))"
      using 1(2,3) Some x by (intro "1.IH" [of x line rest]) auto
    moreover have "segments (cin t) = line # segments rest"
      using getline_segments Some x by simp
    ultimately show ?thesis using r 1(3) by auto
  qed
qed

text \<open>
  Claim C10, as the code has it. While the transport runs with a message callback set,
  the reading thread calls the callback with the segments of the input between
  newlines that are not empty, in order, and with nothing else. A segment has no
  newline in it, and the segments, each followed by a newline, make up the input (with
  a newline added when the input does not end in one): the last segment is delivered
  also when the input ends before its newline.
\<close>

theorem stdio_delivers_segments:
  "(st_running t \<longrightarrow> has_onMessage t \<longrightarrow>
      delivered (read_thread t) = delivered t @ filter (\<lambda>l. l \<noteq> []) (segments (cin t)))
   \<and> (\<forall>l \<in> set (segments s). CHR 0x0A \<notin> set l)
   \<and> concat (map (\<lambda>l. l @ [CHR 0x0A]) (segments s))
       = (if s = [] \<or> last s = CHR 0x0A then s else s @ [CHR 0x0A])"
  using read_thread_delivered segments_no_newline segments_concat by blast

theorem stdio_delivers_segments_witness:
  "delivered (read_thread
     (example_stdio\<lparr>cin := ''ab'' @ [CHR 0x0A] @ [CHR 0x0A] @ ''c'' @ [CHR 0x0A] @ ''d''\<rparr>))
     = [''ab'', ''c'', ''d'']"
  using stdio_delivers_segments
    [of "example_stdio\<lparr>cin := ''ab'' @ [CHR 0x0A] @ [CHR 0x0A] @ ''c'' @ [CHR 0x0A] @ ''d''\<rparr>"
        "''ab'' @ [CHR 0x0A] @ [CHR 0x0A] @ ''c'' @ [CHR 0x0A] @ ''d''"]
  by (simp add: example_stdio_def)

text \<open>
  Claim C10 as stated fails on an input that ends without a newline: the callback
  receives the unterminated text as a frame.
\<close>

theorem unterminated_line_counterexample:
  "CHR 0x0A \<notin> set ''abc''
   \<and> delivered (read_thread (example_stdio\<lparr>cin := ''abc''\<rparr>)) = [''abc'']"
  by (simp add: example_stdio_def read_thread.simps)

end
